theory Spec2Isabelle
  imports Complex_Main
begin

section \<open>Strings\<close>

text \<open>
  A Python string is modelled as a HOL string whose characters are the code points below
  256 (the characters beyond are outside the model; the program itself creates only
  ASCII names). The three library operations the game uses, \<^verbatim>\<open>str.lower\<close>,
  \<^verbatim>\<open>str.strip\<close> and \<^verbatim>\<open>str.split\<close> without arguments, are written out for these code
  points as Python defines them: \<^verbatim>\<open>lower\<close> maps \<open>A\<close>..\<open>Z\<close> to \<open>a\<close>..\<open>z\<close> and the capital
  letters \<open>0xC0\<close>..\<open>0xDE\<close> (without the sign \<open>0xD7\<close>) to the letters 32 places above,
  and leaves every other character alone; the whitespace characters are \<open>0x09\<close>..\<open>0x0D\<close>,
  \<open>0x1C\<close>..\<open>0x20\<close>, the next-line character \<open>0x85\<close> and the no-break space \<open>0xA0\<close>.
\<close>

definition upper_letters :: string where
  "upper_letters =
     ''ABCDEFGHIJKLMNOPQRSTUVWXYZ''
     @ [CHR 0xC0, CHR 0xC1, CHR 0xC2, CHR 0xC3, CHR 0xC4, CHR 0xC5,
         CHR 0xC6, CHR 0xC7, CHR 0xC8, CHR 0xC9, CHR 0xCA, CHR 0xCB,
         CHR 0xCC, CHR 0xCD, CHR 0xCE, CHR 0xCF, CHR 0xD0, CHR 0xD1,
         CHR 0xD2, CHR 0xD3, CHR 0xD4, CHR 0xD5, CHR 0xD6, CHR 0xD8,
         CHR 0xD9, CHR 0xDA, CHR 0xDB, CHR 0xDC, CHR 0xDD, CHR 0xDE]"

definition lower_letters :: string where
  "lower_letters =
     ''abcdefghijklmnopqrstuvwxyz''
     @ [CHR 0xE0, CHR 0xE1, CHR 0xE2, CHR 0xE3, CHR 0xE4, CHR 0xE5,
         CHR 0xE6, CHR 0xE7, CHR 0xE8, CHR 0xE9, CHR 0xEA, CHR 0xEB,
         CHR 0xEC, CHR 0xED, CHR 0xEE, CHR 0xEF, CHR 0xF0, CHR 0xF1,
         CHR 0xF2, CHR 0xF3, CHR 0xF4, CHR 0xF5, CHR 0xF6, CHR 0xF8,
         CHR 0xF9, CHR 0xFA, CHR 0xFB, CHR 0xFC, CHR 0xFD, CHR 0xFE]"

definition lower_char :: "char \<Rightarrow> char" where
  "lower_char c =
     (case map_of (zip upper_letters lower_letters) c of
        Some d \<Rightarrow> d
      | None \<Rightarrow> c)"

definition lower :: "string \<Rightarrow> string" where
  "lower s = map lower_char s"

definition is_space :: "char \<Rightarrow> bool" where
  "is_space c =
     (let n = (of_char c :: nat)
      in (9 \<le> n \<and> n \<le> 13) \<or> (28 \<le> n \<and> n \<le> 32) \<or> n = 133 \<or> n = 160)"

definition strip :: "string \<Rightarrow> string" where
  "strip s = rev (dropWhile is_space (rev (dropWhile is_space s)))"

text \<open>
  \<open>words_from w s\<close> scans \<open>s\<close> with the word \<open>w\<close> read so far; a whitespace character
  closes a non-empty word and is dropped otherwise.
\<close>

fun words_from :: "string \<Rightarrow> string \<Rightarrow> string list" where
  "words_from w [] = (if w = [] then [] else [w])"
| "words_from w (c # cs) =
     (if is_space c then (if w = [] then words_from [] cs else w # words_from [] cs)
      else words_from (w @ [c]) cs)"

definition split :: "string \<Rightarrow> string list" where
  "split s = words_from [] s"

text \<open>
  The no-break space and the next-line character separate words and are stripped, as the
  blank is; a capital letter beyond ASCII is lowered.
\<close>

lemma split_beyond_ascii:
  "split (''go'' @ [CHR 0xA0] @ ''north'') = [''go'', ''north'']"
  "split (''go'' @ [CHR 0x85] @ ''north'') = [''go'', ''north'']"
  "strip ([CHR 0xA0] @ ''flee'' @ [CHR 0x85]) = ''flee''"
  "lower [CHR 0xC9, CHR 0xD7, CHR 0xDF] = [CHR 0xE9, CHR 0xD7, CHR 0xDF]"
  by (simp_all add: split_def strip_def is_space_def lower_def lower_char_def upper_letters_def
        lower_letters_def)

text \<open>\<^verbatim>\<open>sep.join(xs)\<close>\<close>

fun join :: "string \<Rightarrow> string list \<Rightarrow> string" where
  "join sep [] = []"
| "join sep [x] = x"
| "join sep (x # y # ys) = x @ sep @ join sep (y # ys)"

text \<open>\<^verbatim>\<open>s.startswith(p)\<close>\<close>

definition startswith :: "string \<Rightarrow> string \<Rightarrow> bool" where
  "startswith s p = (take (length p) s = p)"

text \<open>\<^verbatim>\<open>str(n)\<close> for an integer, as an f-string formats it.\<close>

definition digit_char :: "nat \<Rightarrow> char" where
  "digit_char d = ''0123456789'' ! d"

fun str_nat :: "nat \<Rightarrow> string" where
  "str_nat n = (if n < 10 then [digit_char n] else str_nat (n div 10) @ [digit_char (n mod 10)])"

definition str_int :: "int \<Rightarrow> string" where
  "str_int i = (if i < 0 then CHR ''-'' # str_nat (nat (- i)) else str_nat (nat i))"

section \<open>Game objects\<close>

text \<open>
  \<^verbatim>\<open>Room\<close> and \<^verbatim>\<open>Enemy\<close> objects are mutated through several references (the room
  dictionary, the exits of other rooms, the player's current room, the local variable
  \<^verbatim>\<open>enemy\<close> of the combat loop), so they live in two stores and are named by
  references. Items are never changed after their creation and are kept by value.
\<close>

type_synonym room_ref = nat
type_synonym enemy_ref = nat

record item =
  item_name :: string
  item_description :: string
  item_heal :: int
  item_attack_bonus :: int

record enemy =
  enemy_name :: string
  enemy_hp :: int
  enemy_attack :: int
  enemy_description :: string

record room =
  room_name :: string
  room_description :: string
  room_items :: "item list"
  room_enemies :: "enemy_ref list"
  room_exits :: "(string \<times> room_ref) list"

record player =
  player_name :: string
  player_current_room :: room_ref
  player_hp :: int
  player_base_attack :: int
  player_inventory :: "item list"

subsection \<open>Item\<close>

definition Item :: "string \<Rightarrow> string \<Rightarrow> int \<Rightarrow> int \<Rightarrow> item" where
  "Item name description heal attack_bonus =
     \<lparr>item_name = lower name, item_description = description, item_heal = heal,
      item_attack_bonus = attack_bonus\<rparr>"

definition item_str :: "item \<Rightarrow> string" where
  "item_str it =
     join '' ''
       ([item_name it]
        @ (if item_heal it \<noteq> 0 then [''(heals '' @ str_int (item_heal it) @ '')''] else [])
        @ (if item_attack_bonus it \<noteq> 0
           then [''(atk +'' @ str_int (item_attack_bonus it) @ '')''] else []))"

subsection \<open>Enemy\<close>

definition Enemy :: "string \<Rightarrow> int \<Rightarrow> int \<Rightarrow> string \<Rightarrow> enemy" where
  "Enemy name hp attack description =
     \<lparr>enemy_name = lower name, enemy_hp = hp, enemy_attack = attack,
      enemy_description = description\<rparr>"

definition is_alive :: "enemy \<Rightarrow> bool" where
  "is_alive e = (enemy_hp e > 0)"

definition take_damage :: "int \<Rightarrow> enemy \<Rightarrow> enemy" where
  "take_damage dmg e = e\<lparr>enemy_hp := enemy_hp e - dmg\<rparr>"

definition enemy_str :: "enemy \<Rightarrow> string" where
  "enemy_str e =
     enemy_name e @ '' (HP: '' @ str_int (enemy_hp e) @ '', ATK: '' @ str_int (enemy_attack e)
       @ '')''"

subsection \<open>Room\<close>

definition Room :: "string \<Rightarrow> string \<Rightarrow> room" where
  "Room name description =
     \<lparr>room_name = name, room_description = description, room_items = [],
      room_enemies = [], room_exits = []\<rparr>"

definition add_item :: "item \<Rightarrow> room \<Rightarrow> room" where
  "add_item it r = r\<lparr>room_items := room_items r @ [it]\<rparr>"

definition add_enemy :: "enemy_ref \<Rightarrow> room \<Rightarrow> room" where
  "add_enemy e r = r\<lparr>room_enemies := room_enemies r @ [e]\<rparr>"

text \<open>
  A dictionary assignment \<^verbatim>\<open>d[k] = v\<close>: the value of an existing key is replaced in
  place, a new key is added at the end (the keys keep their insertion order, which
  \<^verbatim>\<open>get_description\<close> prints).
\<close>

fun dict_set :: "'k \<Rightarrow> 'v \<Rightarrow> ('k \<times> 'v) list \<Rightarrow> ('k \<times> 'v) list" where
  "dict_set k v [] = [(k, v)]"
| "dict_set k v ((k', v') # d) = (if k' = k then (k, v) # d else (k', v') # dict_set k v d)"

definition connect :: "room_ref \<Rightarrow> string \<Rightarrow> room \<Rightarrow> room" where
  "connect other_room direction r =
     r\<lparr>room_exits := dict_set (lower direction) other_room (room_exits r)\<rparr>"

text \<open>
  \<^verbatim>\<open>get_description\<close> reads the enemies of the room in the enemy store \<open>eh\<close>.
\<close>

definition get_description :: "(enemy_ref \<Rightarrow> enemy) \<Rightarrow> room \<Rightarrow> string" where
  "get_description eh r =
     (let lines = [''You are in '' @ room_name r @ ''.'', room_description r];
          lines = (if room_items r \<noteq> []
                   then lines @ [''You see the following items: ''
                                   @ join '', '' (map item_name (room_items r))]
                   else lines);
          lines = (if room_enemies r \<noteq> []
                   then (let alive = map (\<lambda>e. enemy_name (eh e))
                                        (filter (\<lambda>e. is_alive (eh e)) (room_enemies r))
                         in if alive \<noteq> [] then lines @ [''Enemies here: '' @ join '', '' alive]
                            else lines)
                   else lines);
          lines = (if room_exits r \<noteq> []
                   then lines @ [''Exits: '' @ join '', '' (map fst (room_exits r))]
                   else lines)
      in join ''\<newline>'' lines)"

subsection \<open>Player\<close>

definition Player :: "room_ref \<Rightarrow> string \<Rightarrow> player" where
  "Player starting_room name =
     \<lparr>player_name = name, player_current_room = starting_room, player_hp = 30,
      player_base_attack = 5, player_inventory = []\<rparr>"

definition player_is_alive :: "player \<Rightarrow> bool" where
  "player_is_alive p = (player_hp p > 0)"

definition attack_value :: "player \<Rightarrow> int" where
  "attack_value p =
     (let bonus = sum_list (map item_attack_bonus (player_inventory p))
      in player_base_attack p + bonus)"

definition player_add_item :: "item \<Rightarrow> player \<Rightarrow> player" where
  "player_add_item it p = p\<lparr>player_inventory := player_inventory p @ [it]\<rparr>"

text \<open>\<^verbatim>\<open>xs.pop(i)\<close> for an index \<open>i\<close> inside the list: the list without its \<open>i\<close>-th element.\<close>

definition pop :: "nat \<Rightarrow> 'a list \<Rightarrow> 'a list" where
  "pop i xs = take i xs @ drop (Suc i) xs"

text \<open>
  The loops \<^verbatim>\<open>for i, it in enumerate(xs): if P(it): ... return\<close> of the program act on
  the first element that satisfies the test; \<open>first_index\<close> is its index.
\<close>

fun first_index :: "('a \<Rightarrow> bool) \<Rightarrow> 'a list \<Rightarrow> nat option" where
  "first_index P [] = None"
| "first_index P (x # xs) =
     (if P x then Some 0 else (case first_index P xs of None \<Rightarrow> None | Some i \<Rightarrow> Some (Suc i)))"

definition use_healing :: "player \<Rightarrow> player \<times> item option" where
  "use_healing p =
     (case first_index (\<lambda>it. item_heal it > 0) (player_inventory p) of
        Some i \<Rightarrow>
          (let it = player_inventory p ! i
           in (p\<lparr>player_hp := player_hp p + item_heal it,
                 player_inventory := pop i (player_inventory p)\<rparr>, Some it))
      | None \<Rightarrow> (p, None))"

definition player_str :: "player \<Rightarrow> string" where
  "player_str p =
     player_name p @ '' (HP: '' @ str_int (player_hp p) @ '', ATK: ''
       @ str_int (attack_value p) @ '')''"

section \<open>Game engine\<close>

text \<open>
  The state of a run: the fields of the \<^verbatim>\<open>Game\<close> object, the two object stores, the
  text written to standard output so far (one element for each \<^verbatim>\<open>print\<close> call and each
  prompt of \<^verbatim>\<open>input\<close>), and the number of combat rounds begun so far.
\<close>

record game =
  rooms :: "string \<rightharpoonup> room_ref"
  player :: player
  intro_shown :: bool
  room_heap :: "room_ref \<Rightarrow> room"
  enemy_heap :: "enemy_ref \<Rightarrow> enemy"
  printed :: "string list"
  round_no :: nat

text \<open>
  What the outside world hands to one round of combat: the results of
  \<^verbatim>\<open>random.randint(0, 3)\<close>, \<^verbatim>\<open>random.random()\<close> and \<^verbatim>\<open>random.randint(0, 2)\<close>, and the
  line read by \<^verbatim>\<open>input\<close> (\<open>None\<close> at the end of the input, where \<^verbatim>\<open>input\<close> raises
  \<^verbatim>\<open>EOFError\<close>). A round reads only the components it reaches. A script gives these
  for every round of the run, numbered from 0.
\<close>

record draws =
  player_roll :: int
  drop_roll :: real
  enemy_roll :: int
  typed :: "string option"

type_synonym script = "nat \<Rightarrow> draws"

datatype error = IndexError | EOFError

definition print :: "string \<Rightarrow> game \<Rightarrow> game" where
  "print s g = g\<lparr>printed := printed g @ [s]\<rparr>"

definition current_room :: "game \<Rightarrow> room" where
  "current_room g = room_heap g (player_current_room (player g))"

definition describe_current_room :: "game \<Rightarrow> string" where
  "describe_current_room g = get_description (enemy_heap g) (current_room g)"

definition update_room :: "room_ref \<Rightarrow> (room \<Rightarrow> room) \<Rightarrow> game \<Rightarrow> game" where
  "update_room r f g = g\<lparr>room_heap := (room_heap g)(r := f (room_heap g r))\<rparr>"

definition update_enemy :: "enemy_ref \<Rightarrow> (enemy \<Rightarrow> enemy) \<Rightarrow> game \<Rightarrow> game" where
  "update_enemy e f g = g\<lparr>enemy_heap := (enemy_heap g)(e := f (enemy_heap g e))\<rparr>"

definition update_player :: "(player \<Rightarrow> player) \<Rightarrow> game \<Rightarrow> game" where
  "update_player f g = g\<lparr>player := f (player g)\<rparr>"

subsection \<open>The world\<close>

text \<open>
  \<^verbatim>\<open>create_world\<close> allocates six rooms (references 0 to 5, in the order of their creation)
  and three enemies (references 0 to 2), connects the rooms, places items and enemies,
  registers the rooms and creates the player.
\<close>

text \<open>The statements of a block, run one after the other.\<close>

fun run :: "('s \<Rightarrow> 's) list \<Rightarrow> 's \<Rightarrow> 's" where
  "run [] g = g"
| "run (stmt # stmts) g = run stmts (stmt g)"

definition create_world :: "game \<Rightarrow> game" where
  "create_world =
     (let foyer = 0; hall = 1; armory = 2; kitchen = 3; cellar = 4; tower = 5;
          potion = Item ''Small Potion'' ''A red potion. Restores 10 HP.'' 10 0;
          big_potion = Item ''Large Potion'' ''A larger potion. Restores 20 HP.'' 20 0;
          rusty_sword = Item ''Rusty Sword'' ''An old rusty sword. Adds to attack.'' 0 3;
          gem = Item ''Glowing Gem'' ''A strange gem. Maybe valuable?'' 0 0;
          rat = 0; goblin = 1; wraith = 2
      in run
        [update_room foyer (\<lambda>_. Room ''Foyer'' ''A small entrance hall. Dusty, with old portraits.''),
         update_room hall (\<lambda>_. Room ''Great Hall'' ''A wide hall with a long table. Shadows flicker.''),
         update_room armory (\<lambda>_. Room ''Armory'' ''Racks of old weapons; one looks usable.''),
         update_room kitchen (\<lambda>_. Room ''Kitchen'' ''A greasy kitchen with broken pots.''),
         update_room cellar (\<lambda>_. Room ''Cellar'' ''Damp and dark. You can hear something moving.''),
         update_room tower (\<lambda>_. Room ''Tower Top'' ''A windy top of the tower with a view of the land.''),
         update_room foyer (connect hall ''north''), update_room hall (connect foyer ''south''),
         update_room hall (connect armory ''east''), update_room armory (connect hall ''west''),
         update_room hall (connect kitchen ''west''), update_room kitchen (connect hall ''east''),
         update_room kitchen (connect cellar ''down''), update_room cellar (connect kitchen ''up''),
         update_room hall (connect tower ''up''), update_room tower (connect hall ''down''),
         update_room foyer (add_item potion),
         update_room armory (add_item rusty_sword),
         update_room kitchen (add_item big_potion),
         update_room tower (add_item gem),
         update_enemy rat (\<lambda>_. Enemy ''Giant Rat'' 8 2 ''A big gnawing rat.''),
         update_enemy goblin (\<lambda>_. Enemy ''Goblin'' 14 4 ''Sneaky and mean.''),
         update_enemy wraith
           (\<lambda>_. Enemy ''Wraith'' 25 7 ''An eerie shadow-like thing guarding the top.''),
         update_room cellar (add_enemy rat),
         update_room hall (add_enemy goblin),
         update_room tower (add_enemy wraith),
         (\<lambda>g. g\<lparr>rooms := [''foyer'' \<mapsto> foyer, ''hall'' \<mapsto> hall, ''armory'' \<mapsto> armory,
                          ''kitchen'' \<mapsto> kitchen, ''cellar'' \<mapsto> cellar, ''tower'' \<mapsto> tower]\<rparr>),
         (\<lambda>g. g\<lparr>player := Player foyer ''Adventurer''\<rparr>)])"

text \<open>
  \<^verbatim>\<open>Game.__init__\<close>, from a process that has printed nothing and fought no round. The
  references that \<^verbatim>\<open>create_world\<close> does not allocate hold an empty room and a dead enemy
  that nothing refers to.
\<close>

definition blank :: game where
  "blank =
     \<lparr>rooms = Map.empty, player = Player 0 ''Player'', intro_shown = False,
      room_heap = (\<lambda>_. Room [] []), enemy_heap = (\<lambda>_. Enemy [] 0 0 []),
      printed = [], round_no = 0\<rparr>"

definition Game :: game where
  "Game = run [(\<lambda>g. g\<lparr>rooms := Map.empty\<rparr>), create_world, (\<lambda>g. g\<lparr>intro_shown := False\<rparr>)] blank"

subsection \<open>Commands without combat\<close>

definition help_text :: string where
  "help_text =
     ''Commands:\<newline>''
     @ ''  go <direction>      Move to a room (north, south, east, west, up, down).\<newline>''
     @ ''  look                Show the current room description again.\<newline>''
     @ ''  take <item>         Pick up an item.\<newline>''
     @ ''  inventory           Show your items and stats.\<newline>''
     @ ''  use <item>          Use an item from inventory (e.g. potion).\<newline>''
     @ ''  fight <enemy>       Engage an enemy in the room.\<newline>''
     @ ''  help                Show this help text.\<newline>''
     @ ''  quit                Quit the game.''"

definition cmd_help :: "game \<Rightarrow> game" where
  "cmd_help g = print help_text g"

definition cmd_inventory :: "game \<Rightarrow> game" where
  "cmd_inventory g =
     (let g = print (player_str (player g)) g
      in if player_inventory (player g) = [] then print ''Inventory is empty.'' g
         else fold (\<lambda>it. print ('' - '' @ item_str it)) (player_inventory (player g))
                (print ''Inventory:'' g))"

definition cmd_go :: "string \<Rightarrow> game \<Rightarrow> game" where
  "cmd_go direction g =
     (let room = current_room g
      in case map_of (room_exits room) direction of
           None \<Rightarrow> print ''You can't go that way.'' g
         | Some new_room \<Rightarrow>
             (let g = update_player (\<lambda>p. p\<lparr>player_current_room := new_room\<rparr>) g;
                  g = print (''You go '' @ direction @ '' to the '' @ room_name (room_heap g new_room)
                             @ ''.'') g
              in print (get_description (enemy_heap g) (room_heap g new_room)) g))"

definition cmd_take :: "string \<Rightarrow> game \<Rightarrow> game" where
  "cmd_take item_name' g =
     (let room = player_current_room (player g);
          item_name' = lower item_name'
      in case first_index (\<lambda>it. item_name it = item_name') (room_items (room_heap g room)) of
           Some i \<Rightarrow>
             (let it = room_items (room_heap g room) ! i;
                  g = update_player (player_add_item it) g;
                  g = update_room room (\<lambda>r. r\<lparr>room_items := pop i (room_items r)\<rparr>) g
              in print (''You took the '' @ item_name it @ ''.'') g)
         | None \<Rightarrow> print ''No such item here.'' g)"

definition cmd_use :: "string \<Rightarrow> game \<Rightarrow> game" where
  "cmd_use item_name' g =
     (let item_name' = lower item_name'
      in case first_index (\<lambda>it. item_name it = item_name') (player_inventory (player g)) of
           Some i \<Rightarrow>
             (let it = player_inventory (player g) ! i
              in if item_heal it > 0
                 then (let g = update_player (\<lambda>p. p\<lparr>player_hp := player_hp p + item_heal it\<rparr>) g;
                           g = update_player
                                 (\<lambda>p. p\<lparr>player_inventory := pop i (player_inventory p)\<rparr>) g
                       in print (''You used '' @ item_name it @ '' and restored ''
                                 @ str_int (item_heal it) @ '' HP. Current HP: ''
                                 @ str_int (player_hp (player g))) g)
                 else print (''You used '' @ item_name it @ '', but nothing notable happened.'') g)
         | None \<Rightarrow> print ''You don't have that item.'' g)"

definition find_enemy_in_room :: "string \<Rightarrow> game \<Rightarrow> enemy_ref option" where
  "find_enemy_in_room enemy_name' g =
     (let room = current_room g;
          enemy_name' = lower enemy_name'
      in case first_index (\<lambda>e. enemy_name (enemy_heap g e) = enemy_name' \<and> is_alive (enemy_heap g e))
                (room_enemies room) of
           Some i \<Rightarrow> Some (room_enemies room ! i)
         | None \<Rightarrow> None)"

section \<open>Combat\<close>

text \<open>
  The body of the combat loop of \<^verbatim>\<open>cmd_fight\<close> in four named pieces, in the order of
  the source: the player's attack, the victory branch, the enemy's turn and the flight.
  \<open>player_strike\<close> opens the round, so it counts it.
\<close>

definition player_strike :: "draws \<Rightarrow> enemy_ref \<Rightarrow> game \<Rightarrow> game" where
  "player_strike d e g =
     (let g = g\<lparr>round_no := Suc (round_no g)\<rparr>;
          player_atk = attack_value (player g) + player_roll d;
          dmg_to_enemy = max 1 player_atk;
          g = update_enemy e (take_damage dmg_to_enemy) g
      in print (''You hit the '' @ enemy_name (enemy_heap g e) @ '' for '' @ str_int dmg_to_enemy
                @ '' damage. '' @ enemy_name (enemy_heap g e) @ '' HP is now ''
                @ str_int (max 0 (enemy_hp (enemy_heap g e))) @ ''.'') g)"

definition victory :: "draws \<Rightarrow> enemy_ref \<Rightarrow> game \<Rightarrow> game" where
  "victory d e g =
     (let g = print (''You defeated the '' @ enemy_name (enemy_heap g e) @ ''!'') g
      in if drop_roll d < 0.4
         then (let loot = Item ''Small Potion'' ''A potion dropped by the enemy.'' 8 0;
                   g = update_room (player_current_room (player g)) (add_item loot) g
               in print (''The '' @ enemy_name (enemy_heap g e) @ '' dropped a Small Potion.'') g)
         else g)"

definition enemy_strike :: "draws \<Rightarrow> enemy_ref \<Rightarrow> game \<Rightarrow> game" where
  "enemy_strike d e g =
     (let enemy_atk = enemy_attack (enemy_heap g e) + enemy_roll d;
          dmg_to_player = max 1 enemy_atk;
          g = update_player (\<lambda>p. p\<lparr>player_hp := player_hp p - dmg_to_player\<rparr>) g
      in print (''The '' @ enemy_name (enemy_heap g e) @ '' hits you for '' @ str_int dmg_to_player
                @ ''. Your HP is now '' @ str_int (max 0 (player_hp (player g))) @ ''.'') g)"

definition flee :: "game \<Rightarrow> game" where
  "flee g =
     (let g = update_player
                (\<lambda>p. p\<lparr>player_current_room :=
                         (case rooms g ''foyer'' of Some r \<Rightarrow> r | None \<Rightarrow> player_current_room p)\<rparr>) g;
          g = print ''You flee back to the foyer to safety.'' g
      in print (describe_current_room g) g)"

definition prompt :: string where
  "prompt = ''Type 'c' to continue fighting, 'use <item>' to use an item, or 'flee' to run: ''"

text \<open>
  \<^verbatim>\<open>handle_command\<close>, \<^verbatim>\<open>cmd_fight\<close> and its loop call each other: the dispatcher starts a
  fight, and the loop hands a line that starts with \<^verbatim>\<open>use\<close> and a blank back to the
  dispatcher. A result \<open>Inl\<close> is an exception that leaves the function: \<open>IndexError\<close> from
  \<^verbatim>\<open>parts[0]\<close> on a line without a word, \<open>EOFError\<close> from \<^verbatim>\<open>input\<close>.
\<close>

function handle_command :: "script \<Rightarrow> string \<Rightarrow> game \<Rightarrow> error + game"
  and cmd_fight :: "script \<Rightarrow> string \<Rightarrow> game \<Rightarrow> error + game"
  and fight_loop :: "script \<Rightarrow> enemy_ref \<Rightarrow> game \<Rightarrow> error + game"
where
  "handle_command env cmd_line g =
     (let parts = split cmd_line
      in if parts = [] then Inl IndexError
         else (let cmd = parts ! 0
               in if cmd = ''help'' then Inr (cmd_help g)
                  else if cmd = ''look'' then Inr (print (describe_current_room g) g)
                  else if cmd = ''inventory'' then Inr (cmd_inventory g)
                  else if cmd = ''go''
                  then (if length parts < 2 then Inr (print ''Go where? Usage: go <direction>'' g)
                        else Inr (cmd_go (parts ! 1) g))
                  else if cmd = ''take''
                  then (if length parts < 2 then Inr (print ''Take what? Usage: take <item>'' g)
                        else Inr (cmd_take (join '' '' (drop 1 parts)) g))
                  else if cmd = ''fight''
                  then (if length parts < 2 then Inr (print ''Fight whom? Usage: fight <enemy>'' g)
                        else cmd_fight env (join '' '' (drop 1 parts)) g)
                  else if cmd = ''use''
                  then (if length parts < 2 then Inr (print ''Use what? Usage: use <itemname>'' g)
                        else Inr (cmd_use (join '' '' (drop 1 parts)) g))
                  else Inr (print ''Unknown command. Type 'help' for commands.'' g)))"
| "cmd_fight env enemy_name' g =
     (case find_enemy_in_room enemy_name' g of
        None \<Rightarrow> Inr (print ''No such enemy here.'' g)
      | Some e \<Rightarrow>
          fight_loop env e (print (''You engage the '' @ enemy_name (enemy_heap g e) @ ''!'') g))"
| "fight_loop env e g =
     (if is_alive (enemy_heap g e) \<and> player_is_alive (player g)
      then (let d = env (round_no g);
                g = player_strike d e g
            in if \<not> is_alive (enemy_heap g e) then Inr (victory d e g)
               else (let g = enemy_strike d e g
                     in if \<not> player_is_alive (player g)
                        then Inr (print ''You were slain in battle...'' g)
                        else (let g = print prompt g
                              in case typed d of
                                   None \<Rightarrow> Inl EOFError
                                 | Some line \<Rightarrow>
                                     (let action = lower (strip line)
                                      in if action = ''flee'' then Inr (flee g)
                                         else if startswith action ''use ''
                                         then (case handle_command env action g of
                                                 Inl err \<Rightarrow> Inl err
                                               | Inr g \<Rightarrow> fight_loop env e g)
                                         else if action = ''c'' \<or> action = []
                                         then fight_loop env e g
                                         else fight_loop env e
                                                (print ''Unknown option; continuing the fight.'' g)))))
      else Inr g)"
  by pat_completeness auto


text \<open>
  The loop terminates because every round takes at least one point from the health of
  the enemy, and a line given back to the dispatcher never starts another fight.
\<close>

lemma enemy_heap_print [simp]: "enemy_heap (print s g) = enemy_heap g"
  by (simp add: print_def)

lemma enemy_heap_update_player [simp]: "enemy_heap (update_player f g) = enemy_heap g"
  by (simp add: update_player_def)

lemma enemy_heap_update_room [simp]: "enemy_heap (update_room r f g) = enemy_heap g"
  by (simp add: update_room_def)

lemma enemy_heap_cmd_use [simp]: "enemy_heap (cmd_use n g) = enemy_heap g"
  by (simp add: cmd_use_def Let_def split: option.splits)

lemma enemy_heap_enemy_strike [simp]: "enemy_heap (enemy_strike d e g) = enemy_heap g"
  by (simp add: enemy_strike_def Let_def)

lemma enemy_hp_player_strike:
  "enemy_hp (enemy_heap (player_strike d e g) e)
     = enemy_hp (enemy_heap g e) - max 1 (attack_value (player g) + player_roll d)"
  by (simp add: player_strike_def Let_def update_enemy_def take_damage_def)

lemma split_use_append: "split (''use '' @ r) = ''use'' # split r"
  by (simp add: split_def is_space_def)

lemma split_use:
  assumes "startswith a ''use ''"
  shows "split a = ''use'' # split (drop 4 a)"
proof -
  from assms have "take 4 a = ''use ''"
    by (simp add: startswith_def eval_nat_numeral)
  with append_take_drop_id [of 4 a] have "''use '' @ drop 4 a = a"
    by simp
  then have "split a = split (''use '' @ drop 4 a)"
    by simp
  then show ?thesis
    by (simp only: split_use_append)
qed

lemma handle_command_use_dom:
  assumes u: "startswith a ''use ''"
    and d: "handle_command_cmd_fight_fight_loop_dom (Inl (env, a, g))"
  shows "handle_command env a g =
           Inr (if split (drop 4 a) = [] then print ''Use what? Usage: use <itemname>'' g
                else cmd_use (join '' '' (split (drop 4 a))) g)"
proof -
  have s: "split a = ''use'' # split (drop 4 a)"
    using u by (rule split_use)
  show ?thesis
    by (subst handle_command.psimps [OF d]) (simp add: s Let_def)
qed

termination handle_command
proof (relation "inv_image (less_than <*lex*> less_than)
     (\<lambda>x. case x of
         Inl (env, cmd_line, g) \<Rightarrow>
           (if take 1 (split cmd_line) = [''fight''] then 3 else 0, 0)
       | Inr (Inl (env, nm, g)) \<Rightarrow> (2, 0)
       | Inr (Inr (env, e, g)) \<Rightarrow> (1::nat, nat (enemy_hp (enemy_heap g e))))", goal_cases)
  case 1
  show ?case by (intro wf_inv_image wf_lex_prod wf_less_than)
next
  case (2 env cmd_line g x xa)
  then show ?case by (cases "split cmd_line") simp_all
next
  case 3
  show ?case by simp
next
  case (4 env e g x xa xb xaa x2 xc)
  then show ?case by (simp add: split_use)
next
  case (5 env e g x xa xb xaa x2 xc b)
  have "handle_command env xc xaa =
           Inr (if split (drop 4 xc) = [] then print ''Use what? Usage: use <itemname>'' xaa
                else cmd_use (join '' '' (split (drop 4 xc))) xaa)"
    using 5(11) 5(13) by (rule handle_command_use_dom)
  with 5(12) have "enemy_heap b = enemy_heap xaa"
    by (cases "split (drop 4 xc) = []") auto
  with 5(1-7) show ?case
    by (simp add: enemy_hp_player_strike is_alive_def)
next
  case (6 env e g x xa xb xaa x2 xc)
  then show ?case by (simp add: enemy_hp_player_strike is_alive_def)
next
  case (7 env e g x xa xb xaa x2 xc)
  then show ?case by (simp add: enemy_hp_player_strike is_alive_def)
qed

section \<open>Reading a state\<close>

text \<open>
  The equations of the three recursive functions are applied by hand, one call at a time.
\<close>

declare handle_command.simps [simp del] cmd_fight.simps [simp del] fight_loop.simps [simp del]

lemma print_sel [simp]:
  "printed (print s g) = printed g @ [s]"
  "room_heap (print s g) = room_heap g"
  "player (print s g) = player g"
  "rooms (print s g) = rooms g"
  "round_no (print s g) = round_no g"
  "intro_shown (print s g) = intro_shown g"
  by (simp_all add: print_def)

lemma update_room_sel [simp]:
  "room_heap (update_room r f g) x = (if x = r then f (room_heap g r) else room_heap g x)"
  "player (update_room r f g) = player g"
  "rooms (update_room r f g) = rooms g"
  "printed (update_room r f g) = printed g"
  "round_no (update_room r f g) = round_no g"
  "intro_shown (update_room r f g) = intro_shown g"
  by (simp_all add: update_room_def)

lemma update_enemy_sel [simp]:
  "enemy_heap (update_enemy r f g) x = (if x = r then f (enemy_heap g r) else enemy_heap g x)"
  "room_heap (update_enemy r f g) = room_heap g"
  "player (update_enemy r f g) = player g"
  "rooms (update_enemy r f g) = rooms g"
  "printed (update_enemy r f g) = printed g"
  "round_no (update_enemy r f g) = round_no g"
  "intro_shown (update_enemy r f g) = intro_shown g"
  by (simp_all add: update_enemy_def)

lemma update_player_sel [simp]:
  "player (update_player f g) = f (player g)"
  "room_heap (update_player f g) = room_heap g"
  "rooms (update_player f g) = rooms g"
  "printed (update_player f g) = printed g"
  "round_no (update_player f g) = round_no g"
  "intro_shown (update_player f g) = intro_shown g"
  by (simp_all add: update_player_def)

subsection \<open>The initial world\<close>

lemmas Game_nested = Game_def [unfolded create_world_def Let_def run.simps]

lemmas world_defs = blank_def Room_def Item_def Enemy_def Player_def connect_def add_item_def
  add_enemy_def lower_def lower_char_def upper_letters_def lower_letters_def

lemma Game_player:
  "player Game = \<lparr>player_name = ''Adventurer'', player_current_room = 0, player_hp = 30,
      player_base_attack = 5, player_inventory = []\<rparr>"
  by (simp add: Game_nested world_defs)

lemma Game_foyer:
  "room_heap Game 0 =
     \<lparr>room_name = ''Foyer'', room_description = ''A small entrance hall. Dusty, with old portraits.'',
      room_items = [\<lparr>item_name = ''small potion'', item_description = ''A red potion. Restores 10 HP.'',
                     item_heal = 10, item_attack_bonus = 0\<rparr>],
      room_enemies = [], room_exits = [(''north'', 1)]\<rparr>"
  by (simp add: Game_nested world_defs)

lemma Game_hall:
  "room_heap Game (Suc 0) =
     \<lparr>room_name = ''Great Hall'', room_description = ''A wide hall with a long table. Shadows flicker.'',
      room_items = [],
      room_enemies = [1], room_exits = [(''south'', 0), (''east'', 2), (''west'', 3), (''up'', 5)]\<rparr>"
  by (simp add: Game_nested world_defs)

lemma Game_misc: "printed Game = []" "round_no Game = 0" "rooms Game ''foyer'' = Some 0"
  by (simp_all add: Game_nested world_defs)

lemma Game_goblin:
  "enemy_heap Game (Suc 0) = \<lparr>enemy_name = ''goblin'', enemy_hp = 14, enemy_attack = 4, enemy_description = ''Sneaky and mean.''\<rparr>"
  by (simp add: Game_nested world_defs)

section \<open>Movement\<close>

text \<open>
  C9. For every execution of \<^verbatim>\<open>go <direction>\<close>: if the direction is not a key of the exits
  of the current room, the failure message is printed and the state is otherwise
  unchanged, the current room of the player included; if it is a key, the current room
  of the player becomes the room the exits map it to, and the lines printed are the move
  and the full description of that room, nothing else changing.
\<close>

theorem cmd_go_moves_or_refuses:
  fixes g :: game and direction :: string
  shows "(direction \<notin> fst ` set (room_exits (current_room g)) \<longrightarrow>
            cmd_go direction g = g\<lparr>printed := printed g @ [''You can't go that way.'']\<rparr>)
       \<and> (\<forall>r. map_of (room_exits (current_room g)) direction = Some r \<longrightarrow>
            cmd_go direction g =
              g\<lparr>player := (player g)\<lparr>player_current_room := r\<rparr>,
                printed := printed g
                  @ [''You go '' @ direction @ '' to the '' @ room_name (room_heap g r) @ ''.'',
                     get_description (enemy_heap g) (room_heap g r)]\<rparr>)"
proof (intro conjI allI impI)
  assume "direction \<notin> fst ` set (room_exits (current_room g))"
  then have "map_of (room_exits (current_room g)) direction = None"
    by (simp add: map_of_eq_None_iff)
  then show "cmd_go direction g = g\<lparr>printed := printed g @ [''You can't go that way.'']\<rparr>"
    by (simp add: cmd_go_def print_def)
next
  fix r
  assume "map_of (room_exits (current_room g)) direction = Some r"
  then show "cmd_go direction g =
              g\<lparr>player := (player g)\<lparr>player_current_room := r\<rparr>,
                printed := printed g
                  @ [''You go '' @ direction @ '' to the '' @ room_name (room_heap g r) @ ''.'',
                     get_description (enemy_heap g) (room_heap g r)]\<rparr>"
    by (simp add: cmd_go_def print_def update_player_def Let_def)
qed

theorem cmd_go_moves_or_refuses_witness:
  "cmd_go ''sideways'' Game = Game\<lparr>printed := [''You can't go that way.'']\<rparr>
   \<and> player_current_room (player (cmd_go ''north'' Game)) = 1
   \<and> printed (cmd_go ''north'' Game) =
        [''You go north to the Great Hall.'',
         ''You are in Great Hall.\<newline>A wide hall with a long table. Shadows flicker.\<newline>Enemies here: goblin\<newline>Exits: south, east, west, up'']"
  using cmd_go_moves_or_refuses [of "''sideways''" Game] cmd_go_moves_or_refuses [of "''north''" Game]
  by (simp add: current_room_def Game_player Game_foyer Game_hall Game_misc Game_goblin
        get_description_def is_alive_def Let_def)


section \<open>Items\<close>

text \<open>The first element that passes a test, and a list where none does.\<close>

lemma first_index_Some_iff:
  "first_index P xs = Some i \<longleftrightarrow> i < length xs \<and> P (xs ! i) \<and> (\<forall>j<i. \<not> P (xs ! j))"
proof (induction xs arbitrary: i)
  case Nil
  show ?case by simp
next
  case (Cons x xs)
  show ?case
  proof (cases "P x")
    case True
    then show ?thesis by (cases i) auto
  next
    case False
    show ?thesis
    proof (cases i)
      case 0
      with False show ?thesis by (simp split: option.splits)
    next
      case (Suc k)
      have h: "(\<forall>j<Suc k. \<not> P ((x # xs) ! j)) \<longleftrightarrow> (\<forall>j<k. \<not> P (xs ! j))"
        using False by (auto simp: less_Suc_eq_0_disj)
      have l: "first_index P (x # xs) = Some (Suc k) \<longleftrightarrow> first_index P xs = Some k"
        using False by (simp split: option.splits)
      show ?thesis
        unfolding Suc l h Cons.IH [of k] by simp
    qed
  qed
qed

lemma first_index_None_iff: "first_index P xs = None \<longleftrightarrow> (\<forall>x\<in>set xs. \<not> P x)"
  by (induction xs) (auto split: option.splits)

lemma lower_examples:
  "lower ''Small Potion'' = ''small potion''"
  "lower ''small potion'' = ''small potion''"
  "lower ''Glowing Gem'' = ''glowing gem''"
  "lower ''glowing gem'' = ''glowing gem''"
  "lower ''GLOWING GEM'' = ''glowing gem''"
  "lower ''Rusty Sword'' = ''rusty sword''"
  "lower ''rusty sword'' = ''rusty sword''"
  "lower ''goblin'' = ''goblin''"
  by (simp_all add: lower_def lower_char_def upper_letters_def lower_letters_def)

text \<open>
  C4. For every execution of \<^verbatim>\<open>use <name>\<close>, with \<open>bag\<close> the inventory before it: if the
  first item of the inventory whose name is the lower-cased argument (the item at
  \<open>i\<close>) has a heal value above 0, the health of the player grows by exactly that value,
  with no upper bound, and exactly that item leaves the inventory; if its heal value is
  not above 0, the inventory stays as it is and only the message is printed; if no item
  has that name, the failure message is printed and nothing else changes.
\<close>

theorem cmd_use_heals_keeps_or_refuses:
  fixes g :: game and nm :: string and i :: nat
  assumes bag: "bag = player_inventory (player g)"
  shows "(i < length bag \<and> item_name (bag ! i) = lower nm
            \<and> (\<forall>j<i. item_name (bag ! j) \<noteq> lower nm) \<and> 0 < item_heal (bag ! i) \<longrightarrow>
          cmd_use nm g =
            g\<lparr>player := (player g)\<lparr>player_hp := player_hp (player g) + item_heal (bag ! i),
                                     player_inventory := take i bag @ drop (Suc i) bag\<rparr>,
              printed := printed g
                @ [''You used '' @ item_name (bag ! i) @ '' and restored ''
                   @ str_int (item_heal (bag ! i)) @ '' HP. Current HP: ''
                   @ str_int (player_hp (player g) + item_heal (bag ! i))]\<rparr>
          \<and> length (player_inventory (player (cmd_use nm g))) + 1 = length bag)
       \<and> (i < length bag \<and> item_name (bag ! i) = lower nm
            \<and> (\<forall>j<i. item_name (bag ! j) \<noteq> lower nm) \<and> item_heal (bag ! i) \<le> 0 \<longrightarrow>
          cmd_use nm g =
            g\<lparr>printed := printed g
                @ [''You used '' @ item_name (bag ! i) @ '', but nothing notable happened.'']\<rparr>)
       \<and> ((\<forall>it\<in>set bag. item_name it \<noteq> lower nm) \<longrightarrow>
          cmd_use nm g = g\<lparr>printed := printed g @ [''You don't have that item.'']\<rparr>)"
proof (intro conjI impI)
  assume a: "i < length bag \<and> item_name (bag ! i) = lower nm
            \<and> (\<forall>j<i. item_name (bag ! j) \<noteq> lower nm) \<and> 0 < item_heal (bag ! i)"
  then have f: "first_index (\<lambda>it. item_name it = lower nm) (player_inventory (player g)) = Some i"
    unfolding bag by (simp add: first_index_Some_iff)
  from a show "cmd_use nm g =
            g\<lparr>player := (player g)\<lparr>player_hp := player_hp (player g) + item_heal (bag ! i),
                                     player_inventory := take i bag @ drop (Suc i) bag\<rparr>,
              printed := printed g
                @ [''You used '' @ item_name (bag ! i) @ '' and restored ''
                   @ str_int (item_heal (bag ! i)) @ '' HP. Current HP: ''
                   @ str_int (player_hp (player g) + item_heal (bag ! i))]\<rparr>"
    by (simp add: cmd_use_def f Let_def update_player_def print_def pop_def bag)
  from a have "i < length (player_inventory (player g))" "0 < item_heal (player_inventory (player g) ! i)"
    unfolding bag by simp_all
  then show "length (player_inventory (player (cmd_use nm g))) + 1 = length bag"
    by (simp add: cmd_use_def f Let_def update_player_def print_def pop_def bag)
next
  assume a: "i < length bag \<and> item_name (bag ! i) = lower nm
            \<and> (\<forall>j<i. item_name (bag ! j) \<noteq> lower nm) \<and> item_heal (bag ! i) \<le> 0"
  then have f: "first_index (\<lambda>it. item_name it = lower nm) (player_inventory (player g)) = Some i"
    unfolding bag by (simp add: first_index_Some_iff)
  from a show "cmd_use nm g =
            g\<lparr>printed := printed g
                @ [''You used '' @ item_name (bag ! i) @ '', but nothing notable happened.'']\<rparr>"
    by (simp add: cmd_use_def f Let_def print_def bag)
next
  assume "\<forall>it\<in>set bag. item_name it \<noteq> lower nm"
  then have f: "first_index (\<lambda>it. item_name it = lower nm) (player_inventory (player g)) = None"
    unfolding bag by (simp add: first_index_None_iff)
  show "cmd_use nm g = g\<lparr>printed := printed g @ [''You don't have that item.'']\<rparr>"
    by (simp add: cmd_use_def f print_def)
qed

theorem cmd_use_heals_keeps_or_refuses_witness:
  "player_hp (player (cmd_use ''small potion''
      (update_player (player_add_item (Item ''Glowing Gem'' ''A strange gem. Maybe valuable?'' 0 0))
        (update_player (player_add_item (Item ''Small Potion'' ''A red potion. Restores 10 HP.'' 10 0))
           blank)))) = 40
   \<and> map item_name (player_inventory (player (cmd_use ''small potion''
      (update_player (player_add_item (Item ''Glowing Gem'' ''A strange gem. Maybe valuable?'' 0 0))
        (update_player (player_add_item (Item ''Small Potion'' ''A red potion. Restores 10 HP.'' 10 0))
           blank))))) = [''glowing gem'']
   \<and> map item_name (player_inventory (player (cmd_use ''GLOWING GEM''
      (update_player (player_add_item (Item ''Glowing Gem'' ''A strange gem. Maybe valuable?'' 0 0))
        (update_player (player_add_item (Item ''Small Potion'' ''A red potion. Restores 10 HP.'' 10 0))
           blank))))) = [''small potion'', ''glowing gem'']
   \<and> printed (cmd_use ''rusty sword''
      (update_player (player_add_item (Item ''Glowing Gem'' ''A strange gem. Maybe valuable?'' 0 0))
        (update_player (player_add_item (Item ''Small Potion'' ''A red potion. Restores 10 HP.'' 10 0))
           blank))) = [''You don't have that item.'']"
proof -
  let ?g = "update_player (player_add_item (Item ''Glowing Gem'' ''A strange gem. Maybe valuable?'' 0 0))
        (update_player (player_add_item (Item ''Small Potion'' ''A red potion. Restores 10 HP.'' 10 0))
           blank)"
  let ?bag = "[Item ''Small Potion'' ''A red potion. Restores 10 HP.'' 10 0,
               Item ''Glowing Gem'' ''A strange gem. Maybe valuable?'' 0 0]"
  have bag: "?bag = player_inventory (player ?g)"
    by (simp add: player_add_item_def blank_def Player_def)
  have p: "player_hp (player ?g) = 30" "printed ?g = []"
    by (simp_all add: player_add_item_def blank_def Player_def)
  from cmd_use_heals_keeps_or_refuses [OF bag, of 0 "''small potion''"]
       cmd_use_heals_keeps_or_refuses [OF bag, of 1 "''GLOWING GEM''"]
       cmd_use_heals_keeps_or_refuses [OF bag, of 0 "''rusty sword''"]
  show ?thesis
    by (simp add: Item_def lower_examples player_add_item_def blank_def Player_def update_player_def
          str_int_def digit_char_def)
qed

section \<open>The dispatcher\<close>

text \<open>\<^verbatim>\<open>handle_command\<close> on a line with a first word.\<close>

lemma handle_command_parts:
  assumes parts: "split cmd_line = cmd # args"
  shows "handle_command env cmd_line g =
      (if cmd = ''help'' then Inr (cmd_help g)
       else if cmd = ''look'' then Inr (print (describe_current_room g) g)
       else if cmd = ''inventory'' then Inr (cmd_inventory g)
       else if cmd = ''go''
       then (if args = [] then Inr (print ''Go where? Usage: go <direction>'' g)
             else Inr (cmd_go (args ! 0) g))
       else if cmd = ''take''
       then (if args = [] then Inr (print ''Take what? Usage: take <item>'' g)
             else Inr (cmd_take (join '' '' args) g))
       else if cmd = ''fight''
       then (if args = [] then Inr (print ''Fight whom? Usage: fight <enemy>'' g)
             else cmd_fight env (join '' '' args) g)
       else if cmd = ''use''
       then (if args = [] then Inr (print ''Use what? Usage: use <itemname>'' g)
             else Inr (cmd_use (join '' '' args) g))
       else Inr (print ''Unknown command. Type 'help' for commands.'' g))"
  by (subst handle_command.simps) (simp add: parts Let_def)

text \<open>A line without a word makes \<^verbatim>\<open>parts[0]\<close> raise.\<close>

lemma handle_command_no_word:
  assumes "split cmd_line = []"
  shows "handle_command env cmd_line g = Inl IndexError"
  by (subst handle_command.simps) (simp add: assms)

text \<open>A no-break space between the verb and its argument separates them.\<close>

lemma handle_command_go_no_break_space:
  "handle_command env (''go'' @ [CHR 0xA0] @ ''north'') g = Inr (cmd_go ''north'' g)"
  by (subst handle_command_parts [OF split_beyond_ascii(1)]) simp

text \<open>
  C7. For every input line whose first word is not one of the verbs the dispatcher knows,
  and for every line that is the verb \<^verbatim>\<open>go\<close>, \<^verbatim>\<open>take\<close>, \<^verbatim>\<open>fight\<close> or \<^verbatim>\<open>use\<close> without an
  argument, the dispatcher returns normally (no exception), prints one message (the
  unknown-command message or the usage of the verb) and leaves the rest of the state
  unchanged.
\<close>

theorem handle_command_rejects:
  fixes env :: script and g :: game and cmd_line cmd :: string and args :: "string list"
  assumes parts: "split cmd_line = cmd # args"
  shows "(cmd \<notin> {''help'', ''look'', ''inventory'', ''go'', ''take'', ''fight'', ''use''} \<longrightarrow>
            handle_command env cmd_line g =
              Inr (g\<lparr>printed := printed g @ [''Unknown command. Type 'help' for commands.'']\<rparr>))
       \<and> (cmd = ''go'' \<and> args = [] \<longrightarrow>
            handle_command env cmd_line g =
              Inr (g\<lparr>printed := printed g @ [''Go where? Usage: go <direction>'']\<rparr>))
       \<and> (cmd = ''take'' \<and> args = [] \<longrightarrow>
            handle_command env cmd_line g =
              Inr (g\<lparr>printed := printed g @ [''Take what? Usage: take <item>'']\<rparr>))
       \<and> (cmd = ''fight'' \<and> args = [] \<longrightarrow>
            handle_command env cmd_line g =
              Inr (g\<lparr>printed := printed g @ [''Fight whom? Usage: fight <enemy>'']\<rparr>))
       \<and> (cmd = ''use'' \<and> args = [] \<longrightarrow>
            handle_command env cmd_line g =
              Inr (g\<lparr>printed := printed g @ [''Use what? Usage: use <itemname>'']\<rparr>))"
  unfolding handle_command_parts [OF parts] by (simp add: print_def)

theorem handle_command_rejects_witness:
  "handle_command (\<lambda>_. \<lparr>player_roll = 0, drop_roll = 0, enemy_roll = 0, typed = None\<rparr>) ''dance wildly'' blank
     = Inr (blank\<lparr>printed := [''Unknown command. Type 'help' for commands.'']\<rparr>)
   \<and> handle_command (\<lambda>_. \<lparr>player_roll = 0, drop_roll = 0, enemy_roll = 0, typed = None\<rparr>) ''go'' blank
     = Inr (blank\<lparr>printed := [''Go where? Usage: go <direction>'']\<rparr>)
   \<and> handle_command (\<lambda>_. \<lparr>player_roll = 0, drop_roll = 0, enemy_roll = 0, typed = None\<rparr>) ''take'' blank
     = Inr (blank\<lparr>printed := [''Take what? Usage: take <item>'']\<rparr>)
   \<and> handle_command (\<lambda>_. \<lparr>player_roll = 0, drop_roll = 0, enemy_roll = 0, typed = None\<rparr>) ''fight'' blank
     = Inr (blank\<lparr>printed := [''Fight whom? Usage: fight <enemy>'']\<rparr>)
   \<and> handle_command (\<lambda>_. \<lparr>player_roll = 0, drop_roll = 0, enemy_roll = 0, typed = None\<rparr>) ''use'' blank
     = Inr (blank\<lparr>printed := [''Use what? Usage: use <itemname>'']\<rparr>)"
proof -
  have s: "split ''dance wildly'' = [''dance'', ''wildly'']" "split ''go'' = [''go'']"
    "split ''take'' = [''take'']" "split ''fight'' = [''fight'']" "split ''use'' = [''use'']"
    by (simp_all add: split_def is_space_def)
  have p: "printed blank = []"
    by (simp add: blank_def)
  from handle_command_rejects [OF s(1)] handle_command_rejects [OF s(2)]
    handle_command_rejects [OF s(3)] handle_command_rejects [OF s(4)]
    handle_command_rejects [OF s(5)]
  show ?thesis
    by (simp add: p)
qed

section \<open>Combat rounds\<close>

lemma enemy_heap_flee [simp]: "enemy_heap (flee g) = enemy_heap g"
  by (simp add: flee_def Let_def)

lemma enemy_heap_victory [simp]: "enemy_heap (victory d e g) = enemy_heap g"
  by (simp add: victory_def Let_def)

lemma player_strike_sel [simp]:
  "enemy_heap (player_strike d e g) x =
     (if x = e then take_damage (max 1 (attack_value (player g) + player_roll d)) (enemy_heap g e)
      else enemy_heap g x)"
  "player (player_strike d e g) = player g"
  "room_heap (player_strike d e g) = room_heap g"
  "rooms (player_strike d e g) = rooms g"
  "round_no (player_strike d e g) = Suc (round_no g)"
  "intro_shown (player_strike d e g) = intro_shown g"
  by (simp_all add: player_strike_def Let_def)

lemma enemy_strike_sel [simp]:
  "player (enemy_strike d e g) =
     (player g)\<lparr>player_hp := player_hp (player g) - max 1 (enemy_attack (enemy_heap g e) + enemy_roll d)\<rparr>"
  "room_heap (enemy_strike d e g) = room_heap g"
  "rooms (enemy_strike d e g) = rooms g"
  "round_no (enemy_strike d e g) = round_no g"
  "intro_shown (enemy_strike d e g) = intro_shown g"
  by (simp_all add: enemy_strike_def Let_def)

lemma victory_sel [simp]:
  "player (victory d e g) = player g"
  "room_heap (victory d e g) x =
     (if drop_roll d < 0.4 \<and> x = player_current_room (player g)
      then add_item (Item ''Small Potion'' ''A potion dropped by the enemy.'' 8 0) (room_heap g x)
      else room_heap g x)"
  "rooms (victory d e g) = rooms g"
  "round_no (victory d e g) = round_no g"
  "intro_shown (victory d e g) = intro_shown g"
  by (simp_all add: victory_def Let_def)

lemma flee_sel [simp]:
  "player (flee g) =
     (player g)\<lparr>player_current_room :=
        (case rooms g ''foyer'' of Some r \<Rightarrow> r | None \<Rightarrow> player_current_room (player g))\<rparr>"
  "room_heap (flee g) = room_heap g"
  "rooms (flee g) = rooms g"
  "round_no (flee g) = round_no g"
  "intro_shown (flee g) = intro_shown g"
  by (simp_all add: flee_def Let_def)

lemma cmd_use_sel [simp]:
  "room_heap (cmd_use n g) = room_heap g"
  "rooms (cmd_use n g) = rooms g"
  "round_no (cmd_use n g) = round_no g"
  "intro_shown (cmd_use n g) = intro_shown g"
  "player_current_room (player (cmd_use n g)) = player_current_room (player g)"
  "player_base_attack (player (cmd_use n g)) = player_base_attack (player g)"
  "player_name (player (cmd_use n g)) = player_name (player g)"
  by (simp_all add: cmd_use_def Let_def split: option.splits)

lemma player_hp_cmd_use: "player_hp (player g) \<le> player_hp (player (cmd_use n g))"
  by (simp add: cmd_use_def Let_def split: option.splits)

subsection \<open>One round of the loop\<close>

text \<open>
  What the dispatcher does with a line of the prompt that starts with \<^verbatim>\<open>use\<close> and a
  blank.
\<close>

definition use_line :: "string \<Rightarrow> game \<Rightarrow> game" where
  "use_line action g =
     (if split (drop 4 action) = [] then print ''Use what? Usage: use <itemname>'' g
      else cmd_use (join '' '' (split (drop 4 action))) g)"

lemma handle_command_use:
  assumes "startswith action ''use ''"
  shows "handle_command env action g = Inr (use_line action g)"
  by (simp add: handle_command_parts [OF split_use [OF assms]] use_line_def)

text \<open>
  The body of the loop, as the state it leaves the loop with or the state it goes round
  again with.
\<close>

datatype step = Leave "error + game" | Again game

definition fight_round :: "script \<Rightarrow> enemy_ref \<Rightarrow> game \<Rightarrow> step" where
  "fight_round env e g =
     (let d = env (round_no g); g1 = player_strike d e g
      in if \<not> is_alive (enemy_heap g1 e) then Leave (Inr (victory d e g1))
         else if \<not> player_is_alive (player (enemy_strike d e g1))
         then Leave (Inr (print ''You were slain in battle...'' (enemy_strike d e g1)))
         else (case typed d of
                 None \<Rightarrow> Leave (Inl EOFError)
               | Some line \<Rightarrow>
                   if lower (strip line) = ''flee''
                   then Leave (Inr (flee (print prompt (enemy_strike d e g1))))
                   else if startswith (lower (strip line)) ''use ''
                   then Again (use_line (lower (strip line)) (print prompt (enemy_strike d e g1)))
                   else if lower (strip line) = ''c'' \<or> lower (strip line) = []
                   then Again (print prompt (enemy_strike d e g1))
                   else Again (print ''Unknown option; continuing the fight.''
                                 (print prompt (enemy_strike d e g1)))))"

lemma fight_loop_round:
  "fight_loop env e g =
     (if is_alive (enemy_heap g e) \<and> player_is_alive (player g)
      then (case fight_round env e g of Leave r \<Rightarrow> r | Again g' \<Rightarrow> fight_loop env e g')
      else Inr g)"
  by (subst fight_loop.simps)
     (simp add: fight_round_def Let_def handle_command_use split: option.splits)


lemma use_line_sel [simp]:
  "room_heap (use_line a g) = room_heap g"
  "enemy_heap (use_line a g) = enemy_heap g"
  "rooms (use_line a g) = rooms g"
  "round_no (use_line a g) = round_no g"
  "intro_shown (use_line a g) = intro_shown g"
  "player_current_room (player (use_line a g)) = player_current_room (player g)"
  by (simp_all add: use_line_def)

lemma player_hp_use_line: "player_hp (player g) \<le> player_hp (player (use_line a g))"
  using player_hp_cmd_use [of g] by (simp add: use_line_def)

text \<open>A round that goes round again.\<close>

lemma fight_round_Again:
  assumes "fight_round env e g = Again g'"
  shows "enemy_heap g' = enemy_heap (player_strike (env (round_no g)) e g)"
    and "room_heap g' = room_heap g"
    and "rooms g' = rooms g"
    and "round_no g' = Suc (round_no g)"
    and "player_current_room (player g') = player_current_room (player g)"
    and "is_alive (enemy_heap g' e)"
    and "player_is_alive (player g')"
proof -
  let ?d = "env (round_no g)"
  let ?g2 = "print prompt (enemy_strike ?d e (player_strike ?d e g))"
  from assms have alive: "is_alive (enemy_heap (player_strike ?d e g) e)"
    and palive: "player_is_alive (player (enemy_strike ?d e (player_strike ?d e g)))"
    by (auto simp: fight_round_def Let_def split: if_splits)
  from assms obtain line where line: "typed ?d = Some line"
    using alive palive by (auto simp: fight_round_def Let_def split: if_splits option.splits)
  from assms alive palive line consider
      "g' = use_line (lower (strip line)) ?g2" | "g' = ?g2"
    | "g' = print ''Unknown option; continuing the fight.'' ?g2"
    by (auto simp: fight_round_def Let_def split: if_splits)
  note cases = this
  have p2: "player_is_alive (player ?g2)"
    using palive by simp
  show "enemy_heap g' = enemy_heap (player_strike ?d e g)"
    by (rule cases) simp_all
  then show "is_alive (enemy_heap g' e)"
    using alive by simp
  show "room_heap g' = room_heap g"
    by (rule cases) simp_all
  show "rooms g' = rooms g"
    by (rule cases) simp_all
  show "round_no g' = Suc (round_no g)"
    by (rule cases) simp_all
  show "player_current_room (player g') = player_current_room (player g)"
    by (rule cases) simp_all
  show "player_is_alive (player g')"
  proof (rule cases)
    assume eq: "g' = use_line (lower (strip line)) ?g2"
    have "0 < player_hp (player ?g2)"
      using p2 unfolding player_is_alive_def .
    also have "\<dots> \<le> player_hp (player (use_line (lower (strip line)) ?g2))"
      by (rule player_hp_use_line)
    finally show ?thesis
      unfolding player_is_alive_def eq .
  next
    assume "g' = ?g2"
    with p2 show ?thesis by simp
  next
    assume "g' = print ''Unknown option; continuing the fight.'' ?g2"
    with p2 show ?thesis by simp
  qed
qed

text \<open>A round that leaves the loop.\<close>

lemma fight_round_Leave:
  assumes "fight_round env e g = Leave r"
  shows "(r = Inl EOFError \<and> typed (env (round_no g)) = None)
       \<or> (\<exists>g'. r = Inr g'
             \<and> round_no g' = Suc (round_no g)
             \<and> enemy_heap g' = enemy_heap (player_strike (env (round_no g)) e g)
             \<and> (\<not> is_alive (enemy_heap g' e) \<or> \<not> player_is_alive (player g')
                 \<or> (\<exists>g2. g' = flee g2)))"
  using assms
  by (auto simp: fight_round_def Let_def split: if_splits option.splits)

text \<open>
  The rule of the loop: an invariant \<open>I\<close> kept by every round that goes round again gives
  \<open>Q\<close> of the result, once the rounds that leave and the states that stop the loop give
  it. The loop is total, so the rule is one of total correctness.
\<close>

lemma fight_loop_rule:
  assumes start: "I g"
    and again: "\<And>g g'. I g \<Longrightarrow> is_alive (enemy_heap g e) \<Longrightarrow> player_is_alive (player g)
                  \<Longrightarrow> fight_round env e g = Again g' \<Longrightarrow> I g'"
    and leave: "\<And>g r. I g \<Longrightarrow> is_alive (enemy_heap g e) \<Longrightarrow> player_is_alive (player g)
                  \<Longrightarrow> fight_round env e g = Leave r \<Longrightarrow> Q r"
    and stop: "\<And>g. I g \<Longrightarrow> \<not> (is_alive (enemy_heap g e) \<and> player_is_alive (player g))
                  \<Longrightarrow> Q (Inr g)"
  shows "Q (fight_loop env e g)"
  using start
proof (induction g rule: measure_induct_rule [where f = "\<lambda>g. nat (enemy_hp (enemy_heap g e))"])
  case (less g)
  show ?case
  proof (cases "is_alive (enemy_heap g e) \<and> player_is_alive (player g)")
    case False
    then have "fight_loop env e g = Inr g"
      by (subst fight_loop_round) (simp only: if_False simp_thms)
    with stop [OF less.prems False] show ?thesis
      by simp
  next
    case True
    show ?thesis
    proof (cases "fight_round env e g")
      case (Leave r)
      with True have "fight_loop env e g = r"
        by (subst fight_loop_round) (simp only: if_True step.case simp_thms)
      with leave [OF less.prems _ _ Leave] True show ?thesis
        by simp
    next
      case (Again g')
      have "I g'"
        using again [OF less.prems _ _ Again] True by simp
      moreover have "nat (enemy_hp (enemy_heap g' e)) < nat (enemy_hp (enemy_heap g e))"
        using fight_round_Again(1,6) [OF Again] True
        by (simp add: is_alive_def take_damage_def)
      ultimately have "Q (fight_loop env e g')"
        by (rule less.IH [rotated])
      moreover from Again True have "fight_loop env e g = fight_loop env e g'"
        by (subst fight_loop_round) (simp only: if_True step.case simp_thms)
      ultimately show ?thesis
        by simp
    qed
  qed
qed

lemma Game_rat:
  "enemy_heap Game 0 = \<lparr>enemy_name = ''giant rat'', enemy_hp = 8, enemy_attack = 2,
     enemy_description = ''A big gnawing rat.''\<rparr>"
  by (simp add: Game_nested world_defs)

lemma Game_cellar:
  "room_heap Game 4 =
     \<lparr>room_name = ''Cellar'', room_description = ''Damp and dark. You can hear something moving.'',
      room_items = [], room_enemies = [0], room_exits = [(''up'', 3)]\<rparr>"
  by (simp add: Game_nested world_defs)

section \<open>Termination of combat\<close>

text \<open>
  C10. For every enemy, every state and every script in which the player always answers
  the prompt (with whatever line: continue, use, flee or anything else), the combat loop
  returns, after at most as many rounds as the enemy had health points on entry (none
  when that health is not positive); the health of the enemy at the end is its health
  on entry less at least one point for every round; and at the end the enemy is dead,
  the player is dead, or the player has fled. Every single round takes at least one
  point from the enemy as its first act.
\<close>

theorem fight_loop_terminates:
  fixes env :: script and e :: enemy_ref and g :: game
  assumes answers: "\<forall>k. typed (env k) \<noteq> None"
  shows "(\<exists>g'. fight_loop env e g = Inr g'
            \<and> round_no g \<le> round_no g'
            \<and> round_no g' - round_no g \<le> nat (enemy_hp (enemy_heap g e))
            \<and> enemy_hp (enemy_heap g' e)
                 \<le> enemy_hp (enemy_heap g e) - int (round_no g' - round_no g)
            \<and> (\<not> is_alive (enemy_heap g' e) \<or> \<not> player_is_alive (player g')
                \<or> (\<exists>g2. g' = flee g2)))
       \<and> enemy_hp (enemy_heap (player_strike (env (round_no g)) e g) e)
            \<le> enemy_hp (enemy_heap g e) - 1"
proof
  let ?h = "\<lambda>g. enemy_hp (enemy_heap g e)"
  let ?I = "\<lambda>s. round_no g \<le> round_no s
              \<and> (round_no s - round_no g) + nat (?h s) \<le> nat (?h g)
              \<and> ?h s \<le> ?h g - int (round_no s - round_no g)"
  let ?Q = "\<lambda>r :: error + game. \<exists>g'. r = Inr g'
            \<and> round_no g \<le> round_no g'
            \<and> round_no g' - round_no g \<le> nat (?h g)
            \<and> ?h g' \<le> ?h g - int (round_no g' - round_no g)
            \<and> (\<not> is_alive (enemy_heap g' e) \<or> \<not> player_is_alive (player g')
                \<or> (\<exists>g2. g' = flee g2))"
  have "?Q (fight_loop env e g)"
  proof (rule fight_loop_rule [where I = ?I and Q = ?Q])
    show "?I g" by simp
  next
    fix s s' :: game
    assume i: "?I s" and a: "is_alive (enemy_heap s e)" and r: "fight_round env e s = Again s'"
    from fight_round_Again(1,4,6) [OF r] a i show "?I s'"
      by (simp add: is_alive_def take_damage_def) linarith
  next
    fix s :: game and r :: "error + game"
    assume i: "?I s" and a: "is_alive (enemy_heap s e)" and r: "fight_round env e s = Leave r"
    from fight_round_Leave [OF r] answers obtain g' where g': "r = Inr g'"
      "round_no g' = Suc (round_no s)"
      "enemy_heap g' = enemy_heap (player_strike (env (round_no s)) e s)"
      "\<not> is_alive (enemy_heap g' e) \<or> \<not> player_is_alive (player g') \<or> (\<exists>g2. g' = flee g2)"
      by auto
    from g'(2,3) a i have "round_no g \<le> round_no g'"
      "round_no g' - round_no g \<le> nat (?h g)"
      "?h g' \<le> ?h g - int (round_no g' - round_no g)"
      by (simp_all add: is_alive_def take_damage_def) linarith+
    with g'(1,4) show "?Q r" by blast
  next
    fix s :: game
    assume i: "?I s" and n: "\<not> (is_alive (enemy_heap s e) \<and> player_is_alive (player s))"
    then show "?Q (Inr s)" by auto
  qed
  then show "\<exists>g'. fight_loop env e g = Inr g'
            \<and> round_no g \<le> round_no g'
            \<and> round_no g' - round_no g \<le> nat (enemy_hp (enemy_heap g e))
            \<and> enemy_hp (enemy_heap g' e)
                 \<le> enemy_hp (enemy_heap g e) - int (round_no g' - round_no g)
            \<and> (\<not> is_alive (enemy_heap g' e) \<or> \<not> player_is_alive (player g')
                \<or> (\<exists>g2. g' = flee g2))"
    by blast
next
  show "enemy_hp (enemy_heap (player_strike (env (round_no g)) e g) e)
            \<le> enemy_hp (enemy_heap g e) - 1"
    by (simp add: take_damage_def)
qed

theorem fight_loop_terminates_witness:
  "(\<exists>g'. fight_loop (\<lambda>_. \<lparr>player_roll = 0, drop_roll = 0, enemy_roll = 0, typed = Some ''c''\<rparr>)
           (Suc 0) Game = Inr g'
        \<and> round_no g' \<le> 14
        \<and> enemy_hp (enemy_heap g' (Suc 0)) \<le> 14 - int (round_no g')
        \<and> (\<not> is_alive (enemy_heap g' (Suc 0)) \<or> \<not> player_is_alive (player g')
            \<or> (\<exists>g2. g' = flee g2)))"
  using fight_loop_terminates
    [of "\<lambda>_. \<lparr>player_roll = 0, drop_roll = 0, enemy_roll = 0, typed = Some ''c''\<rparr>" "Suc 0" Game]
  by (simp add: Game_goblin Game_misc)

section \<open>Damage, victory and flight\<close>

lemma strip_examples:
  "strip ''c'' = ''c''" "strip ''  FLEE '' = ''FLEE''" "lower ''c'' = ''c''" "lower ''FLEE'' = ''flee''"
  by (simp_all add: strip_def is_space_def lower_def lower_char_def upper_letters_def lower_letters_def)

text \<open>
  C1. In every round of combat entered with both combatants alive, the player's damage
  is the larger of 1 and the sum of the base attack, the attack bonuses of all items in
  the inventory and the roll, and the enemy's health drops by exactly that, the player's
  health being untouched by the player's attack; when the enemy is dead after it, the
  loop returns without an attack of the enemy; when the enemy survives, its damage is
  the larger of 1 and the sum of its attack and its roll, and the player's health drops
  by exactly that; when the player is dead after it, the loop returns, and otherwise a
  player who continues enters the next round. Both damages are at least 1 whatever the
  rolls.
\<close>

theorem combat_round_damage:
  fixes env :: script and e :: enemy_ref and g :: game
  assumes alive: "is_alive (enemy_heap g e)" "player_is_alive (player g)"
    and d: "d = env (round_no g)"
    and g1: "g1 = player_strike d e g"
    and g2: "g2 = enemy_strike d e g1"
    and to_enemy: "dmg_to_enemy = max 1 (player_base_attack (player g)
                      + sum_list (map item_attack_bonus (player_inventory (player g)))
                      + player_roll d)"
    and to_player: "dmg_to_player = max 1 (enemy_attack (enemy_heap g e) + enemy_roll d)"
  shows "1 \<le> dmg_to_enemy \<and> 1 \<le> dmg_to_player
       \<and> enemy_hp (enemy_heap g1 e) = enemy_hp (enemy_heap g e) - dmg_to_enemy
       \<and> player_hp (player g1) = player_hp (player g)
       \<and> (\<not> is_alive (enemy_heap g1 e) \<longrightarrow>
            fight_loop env e g = Inr (victory d e g1)
            \<and> player_hp (player (victory d e g1)) = player_hp (player g))
       \<and> (is_alive (enemy_heap g1 e) \<longrightarrow>
            player_hp (player g2) = player_hp (player g) - dmg_to_player
            \<and> enemy_hp (enemy_heap g2 e) = enemy_hp (enemy_heap g e) - dmg_to_enemy
            \<and> (\<not> player_is_alive (player g2) \<longrightarrow>
                 fight_loop env e g = Inr (print ''You were slain in battle...'' g2))
            \<and> (player_is_alive (player g2) \<longrightarrow>
                 (\<forall>line. typed d = Some line \<and> lower (strip line) \<in> {''c'', []} \<longrightarrow>
                    fight_loop env e g = fight_loop env e (print prompt g2))))"
proof -
  have loop: "fight_loop env e g =
      (case fight_round env e g of Leave r \<Rightarrow> r | Again g' \<Rightarrow> fight_loop env e g')"
    using alive by (subst fight_loop_round) (simp only: if_True simp_thms)
  have c: "\<not> startswith ''c'' ''use ''" "\<not> startswith [] ''use ''"
    by (simp_all add: startswith_def)
  show ?thesis
    unfolding loop
    by (auto simp: fight_round_def Let_def d [symmetric] g1 g2 to_enemy to_player
          attack_value_def take_damage_def c)
qed

theorem combat_round_damage_witness:
  "enemy_hp (enemy_heap (player_strike \<lparr>player_roll = 0, drop_roll = 0, enemy_roll = 0, typed = Some ''c''\<rparr>
       (Suc 0) Game) (Suc 0)) = 14 - 5
   \<and> player_hp (player (enemy_strike \<lparr>player_roll = 0, drop_roll = 0, enemy_roll = 0, typed = Some ''c''\<rparr>
       (Suc 0)
       (player_strike \<lparr>player_roll = 0, drop_roll = 0, enemy_roll = 0, typed = Some ''c''\<rparr>
          (Suc 0) Game))) = 30 - 4
   \<and> fight_loop (\<lambda>_. \<lparr>player_roll = 0, drop_roll = 0, enemy_roll = 0, typed = Some ''c''\<rparr>) (Suc 0) Game
     = fight_loop (\<lambda>_. \<lparr>player_roll = 0, drop_roll = 0, enemy_roll = 0, typed = Some ''c''\<rparr>) (Suc 0)
         (print prompt
           (enemy_strike \<lparr>player_roll = 0, drop_roll = 0, enemy_roll = 0, typed = Some ''c''\<rparr> (Suc 0)
             (player_strike \<lparr>player_roll = 0, drop_roll = 0, enemy_roll = 0, typed = Some ''c''\<rparr>
                (Suc 0) Game)))
   \<and> fight_loop (\<lambda>_. \<lparr>player_roll = 3, drop_roll = 0, enemy_roll = 0, typed = Some ''c''\<rparr>) 0 Game
     = Inr (victory \<lparr>player_roll = 3, drop_roll = 0, enemy_roll = 0, typed = Some ''c''\<rparr> 0
         (player_strike \<lparr>player_roll = 3, drop_roll = 0, enemy_roll = 0, typed = Some ''c''\<rparr> 0 Game))"
proof -
  have a: "is_alive (enemy_heap Game (Suc 0))" "is_alive (enemy_heap Game 0)"
    "player_is_alive (player Game)"
    by (simp_all add: Game_goblin Game_rat Game_player is_alive_def player_is_alive_def)
  from combat_round_damage
         [where env = "\<lambda>_. \<lparr>player_roll = 0, drop_roll = 0, enemy_roll = 0, typed = Some ''c''\<rparr>",
          OF a(1) a(3) refl refl refl refl refl]
       combat_round_damage
         [where env = "\<lambda>_. \<lparr>player_roll = 3, drop_roll = 0, enemy_roll = 0, typed = Some ''c''\<rparr>",
          OF a(2) a(3) refl refl refl refl refl]
  show ?thesis
    by (simp add: Game_goblin Game_rat Game_player is_alive_def player_is_alive_def take_damage_def
          attack_value_def strip_examples)
qed

text \<open>
  C2. Whenever the player answers the prompt of a round with \<^verbatim>\<open>flee\<close> (in any case, with
  blanks around it), the loop returns at once; the player's current room is then the room
  registered under the key \<^verbatim>\<open>foyer\<close>, whichever room the fight was in, and the health of
  the player and of every enemy are what they were when the prompt was shown (the
  state \<open>g2\<close> after the exchange of blows of that round). The rooms and the inventory
  are unchanged.
\<close>

theorem flee_goes_to_foyer:
  fixes env :: script and e :: enemy_ref and g :: game
  assumes alive: "is_alive (enemy_heap g e)" "player_is_alive (player g)"
    and d: "d = env (round_no g)"
    and g2: "g2 = enemy_strike d e (player_strike d e g)"
    and survive: "is_alive (enemy_heap g2 e)" "player_is_alive (player g2)"
    and flees: "typed d = Some line" "lower (strip line) = ''flee''"
    and foyer: "rooms g ''foyer'' = Some f"
  shows "\<exists>g'. fight_loop env e g = Inr g'
           \<and> player_current_room (player g') = f
           \<and> player_hp (player g') = player_hp (player g2)
           \<and> enemy_heap g' = enemy_heap g2
           \<and> round_no g' = Suc (round_no g)
           \<and> room_heap g' = room_heap g
           \<and> player_inventory (player g') = player_inventory (player g)
           \<and> printed g' = printed g2
                @ [prompt, ''You flee back to the foyer to safety.'',
                   get_description (enemy_heap g2) (room_heap g f)]"
proof -
  have loop: "fight_loop env e g =
      (case fight_round env e g of Leave r \<Rightarrow> r | Again g' \<Rightarrow> fight_loop env e g')"
    using alive by (subst fight_loop_round) (simp only: if_True simp_thms)
  have r: "fight_round env e g = Leave (Inr (flee (print prompt g2)))"
    using survive flees by (simp add: fight_round_def Let_def d [symmetric] g2)
  have p: "printed (flee (print prompt g2)) = printed g2
                @ [prompt, ''You flee back to the foyer to safety.'',
                   get_description (enemy_heap g2) (room_heap g f)]"
    using foyer
    by (simp add: flee_def Let_def g2 describe_current_room_def current_room_def)
  show ?thesis
    unfolding loop r using foyer p by (simp add: g2)
qed

theorem flee_goes_to_foyer_witness:
  "\<exists>g'. fight_loop (\<lambda>_. \<lparr>player_roll = 0, drop_roll = 0, enemy_roll = 0, typed = Some ''  FLEE ''\<rparr>)
          (Suc 0) (update_player (\<lambda>p. p\<lparr>player_current_room := Suc 0\<rparr>) Game) = Inr g'
        \<and> player_current_room (player g') = 0
        \<and> player_hp (player g') = 26
        \<and> enemy_hp (enemy_heap g' (Suc 0)) = 9"
proof -
  let ?g = "update_player (\<lambda>p. p\<lparr>player_current_room := Suc 0\<rparr>) Game"
  let ?d = "\<lparr>player_roll = 0, drop_roll = 0, enemy_roll = 0, typed = Some ''  FLEE ''\<rparr>"
  have a: "is_alive (enemy_heap ?g (Suc 0))" "player_is_alive (player ?g)"
    "is_alive (enemy_heap (enemy_strike ?d (Suc 0) (player_strike ?d (Suc 0) ?g)) (Suc 0))"
    "player_is_alive (player (enemy_strike ?d (Suc 0) (player_strike ?d (Suc 0) ?g)))"
    "typed ?d = Some ''  FLEE ''" "lower (strip ''  FLEE '') = ''flee''"
    "rooms ?g ''foyer'' = Some 0"
    by (simp_all add: Game_goblin Game_player Game_misc is_alive_def player_is_alive_def
          take_damage_def attack_value_def strip_examples)
  from flee_goes_to_foyer [where env = "\<lambda>_. ?d", OF a(1,2) refl refl a(3,4,5,6,7)]
  show ?thesis
    by (auto simp: Game_goblin Game_player take_damage_def attack_value_def)
qed

text \<open>
  C8. Whenever the player's attack of a round brings the enemy's health to 0 or below,
  the loop returns in that round with the player unchanged (the enemy does not attack
  again), and the item list of the player's current room is the old one with exactly one
  new item at its end, the small potion that heals 8, when the draw is below 0.4, and the
  old one when it is not. No other room changes.
\<close>

theorem victory_ends_combat:
  fixes env :: script and e :: enemy_ref and g :: game
  assumes alive: "is_alive (enemy_heap g e)" "player_is_alive (player g)"
    and d: "d = env (round_no g)"
    and g1: "g1 = player_strike d e g"
    and dead: "enemy_hp (enemy_heap g1 e) \<le> 0"
    and here: "here = player_current_room (player g)"
    and loot: "loot = Item ''Small Potion'' ''A potion dropped by the enemy.'' 8 0"
  shows "\<exists>g'. fight_loop env e g = Inr g'
           \<and> player g' = player g
           \<and> enemy_heap g' = enemy_heap g1
           \<and> round_no g' = Suc (round_no g)
           \<and> (if drop_roll d < 0.4
               then room_items (room_heap g' here) = room_items (room_heap g here) @ [loot]
               else room_items (room_heap g' here) = room_items (room_heap g here))
           \<and> (\<forall>r. r \<noteq> here \<longrightarrow> room_heap g' r = room_heap g r)
           \<and> item_heal loot = 8 \<and> item_name loot = ''small potion''"
proof -
  have loop: "fight_loop env e g =
      (case fight_round env e g of Leave r \<Rightarrow> r | Again g' \<Rightarrow> fight_loop env e g')"
    using alive by (subst fight_loop_round) (simp only: if_True simp_thms)
  have r: "fight_round env e g = Leave (Inr (victory d e g1))"
    using dead unfolding g1 by (simp add: fight_round_def Let_def d [symmetric] is_alive_def)
  show ?thesis
    unfolding loop r
    by (simp add: g1 here loot add_item_def Item_def lower_examples)
qed

theorem victory_ends_combat_witness:
  "(\<exists>g'. fight_loop (\<lambda>_. \<lparr>player_roll = 3, drop_roll = 1 / 10, enemy_roll = 0, typed = None\<rparr>) 0
          (update_player (\<lambda>p. p\<lparr>player_current_room := 4\<rparr>) Game) = Inr g'
        \<and> player_hp (player g') = 30
        \<and> map item_heal (room_items (room_heap g' 4)) = [8])
   \<and> (\<exists>g'. fight_loop (\<lambda>_. \<lparr>player_roll = 3, drop_roll = 4 / 10, enemy_roll = 0, typed = None\<rparr>) 0
          (update_player (\<lambda>p. p\<lparr>player_current_room := 4\<rparr>) Game) = Inr g'
        \<and> room_items (room_heap g' 4) = [])"
proof -
  let ?g = "update_player (\<lambda>p. p\<lparr>player_current_room := 4\<rparr>) Game"
  let ?d = "\<lparr>player_roll = 3, drop_roll = 1 / 10, enemy_roll = 0, typed = None\<rparr>"
  let ?d' = "\<lparr>player_roll = 3, drop_roll = 4 / 10, enemy_roll = 0, typed = None\<rparr>"
  have a: "is_alive (enemy_heap ?g 0)" "player_is_alive (player ?g)"
    "enemy_hp (enemy_heap (player_strike ?d 0 ?g) 0) \<le> 0"
    "enemy_hp (enemy_heap (player_strike ?d' 0 ?g) 0) \<le> 0"
    by (simp_all add: Game_rat Game_player is_alive_def player_is_alive_def
          take_damage_def attack_value_def)
  from victory_ends_combat [where env = "\<lambda>_. ?d", OF a(1,2) refl refl a(3) refl refl]
       victory_ends_combat [where env = "\<lambda>_. ?d'", OF a(1,2) refl refl a(4) refl refl]
  show ?thesis
    by (auto simp: Game_player Game_cellar Item_def)
qed

section \<open>What a command changes\<close>

lemma fold_print:
  "fold (\<lambda>it. print (f it)) xs g = g\<lparr>printed := printed g @ map f xs\<rparr>"
  by (induction xs arbitrary: g) (simp_all add: print_def)

lemma cmd_inventory_sel [simp]:
  "room_heap (cmd_inventory g) = room_heap g"
  "enemy_heap (cmd_inventory g) = enemy_heap g"
  "player (cmd_inventory g) = player g"
  "rooms (cmd_inventory g) = rooms g"
  "round_no (cmd_inventory g) = round_no g"
  "intro_shown (cmd_inventory g) = intro_shown g"
  by (simp_all add: cmd_inventory_def Let_def fold_print)

lemma cmd_help_sel [simp]:
  "room_heap (cmd_help g) = room_heap g"
  "enemy_heap (cmd_help g) = enemy_heap g"
  "player (cmd_help g) = player g"
  "rooms (cmd_help g) = rooms g"
  "round_no (cmd_help g) = round_no g"
  "intro_shown (cmd_help g) = intro_shown g"
  by (simp_all add: cmd_help_def)

lemma cmd_go_sel [simp]:
  "room_heap (cmd_go a g) = room_heap g"
  "enemy_heap (cmd_go a g) = enemy_heap g"
  "rooms (cmd_go a g) = rooms g"
  "round_no (cmd_go a g) = round_no g"
  "intro_shown (cmd_go a g) = intro_shown g"
  "player (cmd_go a g) =
     (case map_of (room_exits (current_room g)) a of
        None \<Rightarrow> player g
      | Some r \<Rightarrow> (player g)\<lparr>player_current_room := r\<rparr>)"
  by (simp_all add: cmd_go_def Let_def split: option.splits)

lemma cmd_take_sel [simp]:
  "enemy_heap (cmd_take a g) = enemy_heap g"
  "rooms (cmd_take a g) = rooms g"
  "round_no (cmd_take a g) = round_no g"
  "intro_shown (cmd_take a g) = intro_shown g"
  "room_heap (cmd_take a g) r =
     (case first_index (\<lambda>it. item_name it = lower a) (room_items (current_room g)) of
        None \<Rightarrow> room_heap g r
      | Some i \<Rightarrow>
          if r = player_current_room (player g)
          then (room_heap g r)\<lparr>room_items := pop i (room_items (room_heap g r))\<rparr>
          else room_heap g r)"
  "player (cmd_take a g) =
     (case first_index (\<lambda>it. item_name it = lower a) (room_items (current_room g)) of
        None \<Rightarrow> player g
      | Some i \<Rightarrow> player_add_item (room_items (current_room g) ! i) (player g))"
  by (simp_all add: cmd_take_def Let_def current_room_def split: option.splits)

text \<open>What a command that returns has done.\<close>

lemma handle_command_cases:
  assumes "handle_command env cmd_line g = Inr g'"
  obtains (print) s where "g' = print s g"
    | (inventory) "g' = cmd_inventory g"
    | (go) a where "g' = cmd_go a g"
    | (take) a where "g' = cmd_take a g"
    | (use) a where "g' = cmd_use a g"
    | (fight) a where "cmd_fight env a g = Inr g'"
proof (cases "split cmd_line")
  case Nil
  with assms show ?thesis
    by (simp add: handle_command_no_word)
next
  case (Cons cmd args)
  from assms show ?thesis
    unfolding handle_command_parts [OF Cons]
    by (auto simp: cmd_help_def split: if_splits intro: that)
qed

lemma first_index_in_set:
  assumes "first_index P xs = Some i"
  shows "xs ! i \<in> set xs" and "P (xs ! i)"
  using assms by (simp_all add: first_index_Some_iff)

lemma find_enemy_in_room_Some:
  assumes "find_enemy_in_room a g = Some e"
  shows "e \<in> set (room_enemies (current_room g))"
    and "enemy_name (enemy_heap g e) = lower a"
    and "is_alive (enemy_heap g e)"
proof -
  from assms obtain i where
    i: "first_index (\<lambda>e. enemy_name (enemy_heap g e) = lower a \<and> is_alive (enemy_heap g e))
          (room_enemies (current_room g)) = Some i"
    and e: "e = room_enemies (current_room g) ! i"
    by (auto simp: find_enemy_in_room_def Let_def split: option.splits)
  from first_index_in_set [OF i] e
  show "e \<in> set (room_enemies (current_room g))"
    and "enemy_name (enemy_heap g e) = lower a"
    and "is_alive (enemy_heap g e)"
    by simp_all
qed

lemma cmd_fight_cases:
  assumes "cmd_fight env a g = Inr g'"
  obtains (nobody) "find_enemy_in_room a g = None" and "g' = print ''No such enemy here.'' g"
    | (engage) e where "find_enemy_in_room a g = Some e"
        and "fight_loop env e (print (''You engage the '' @ enemy_name (enemy_heap g e) @ ''!'') g)
               = Inr g'"
  using assms
  by (subst (asm) cmd_fight.simps) (auto split: option.splits intro: that)

text \<open>The four ways in which a round leaves the loop.\<close>

lemma fight_round_Leave_cases:
  assumes "fight_round env e g = Leave r"
  obtains (eof) "r = Inl EOFError"
    | (won) "r = Inr (victory (env (round_no g)) e (player_strike (env (round_no g)) e g))"
        and "\<not> is_alive (enemy_heap (player_strike (env (round_no g)) e g) e)"
    | (slain) "r = Inr (print ''You were slain in battle...''
                       (enemy_strike (env (round_no g)) e (player_strike (env (round_no g)) e g)))"
    | (fled) "r = Inr (flee (print prompt
                       (enemy_strike (env (round_no g)) e (player_strike (env (round_no g)) e g))))"
  using assms
  by (auto simp: fight_round_def Let_def split: if_splits option.splits intro: that)

section \<open>Enemies\<close>

text \<open>
  \<open>wears_down g g'\<close>: the enemies of \<open>g'\<close> are those of \<open>g\<close>, in the same rooms and under
  the same names, none of them healthier than in \<open>g\<close>, and the registered rooms are the
  same.
\<close>

definition wears_down :: "game \<Rightarrow> game \<Rightarrow> bool" where
  "wears_down g g' \<longleftrightarrow>
     (\<forall>e. enemy_hp (enemy_heap g' e) \<le> enemy_hp (enemy_heap g e)
          \<and> enemy_name (enemy_heap g' e) = enemy_name (enemy_heap g e)
          \<and> enemy_attack (enemy_heap g' e) = enemy_attack (enemy_heap g e))
     \<and> (\<forall>r. room_enemies (room_heap g' r) = room_enemies (room_heap g r)
             \<and> room_exits (room_heap g' r) = room_exits (room_heap g r))
     \<and> rooms g' = rooms g"

lemma wears_down_refl [simp]: "wears_down g g"
  by (simp add: wears_down_def)

lemma wears_down_trans: "wears_down g s \<Longrightarrow> wears_down s g' \<Longrightarrow> wears_down g g'"
  unfolding wears_down_def by (metis order_trans)

lemma wears_down_same:
  assumes "enemy_heap g' = enemy_heap g" and "room_heap g' = room_heap g" and "rooms g' = rooms g"
  shows "wears_down g g'"
  using assms by (simp add: wears_down_def)

lemma wears_down_print [simp]: "wears_down g (print s g)"
  by (simp add: wears_down_same)

lemma wears_down_player_strike [simp]: "wears_down g (player_strike d e g)"
  by (simp add: wears_down_def take_damage_def)

lemma wears_down_enemy_strike [simp]: "wears_down g (enemy_strike d e g)"
  by (simp add: wears_down_same)

lemma wears_down_victory [simp]: "wears_down g (victory d e g)"
  by (simp add: wears_down_def add_item_def)

lemma wears_down_flee [simp]: "wears_down g (flee g)"
  by (simp add: wears_down_same)

lemma wears_down_cmd_use [simp]: "wears_down g (cmd_use a g)"
  by (simp add: wears_down_same)

lemma wears_down_use_line [simp]: "wears_down g (use_line a g)"
  by (simp add: wears_down_same)

lemma wears_down_cmd_go [simp]: "wears_down g (cmd_go a g)"
  by (simp add: wears_down_same)

lemma wears_down_cmd_inventory [simp]: "wears_down g (cmd_inventory g)"
  by (simp add: wears_down_same)

lemma wears_down_cmd_take [simp]: "wears_down g (cmd_take a g)"
  by (simp add: wears_down_def split: option.splits)

lemma wears_down_then:
  assumes "wears_down g s"
  shows "wears_down g (print x s)"
    and "wears_down g (player_strike d e s)"
    and "wears_down g (enemy_strike d e s)"
    and "wears_down g (victory d e s)"
    and "wears_down g (flee s)"
    and "wears_down g (use_line a s)"
  using assms by (blast intro: wears_down_trans wears_down_print wears_down_player_strike
      wears_down_enemy_strike wears_down_victory wears_down_flee wears_down_use_line)+

lemma wears_down_round:
  assumes "fight_round env e g = Again g'"
  shows "wears_down g g'"
proof -
  have "wears_down g (player_strike (env (round_no g)) e g)"
    by simp
  moreover have "wears_down (player_strike (env (round_no g)) e g) g'"
    using fight_round_Again(1,2,3) [OF assms] by (simp add: wears_down_def)
  ultimately show ?thesis
    by (rule wears_down_trans)
qed

lemma wears_down_leave:
  assumes "fight_round env e g = Leave (Inr g')"
  shows "wears_down g g'"
  using assms
  by (cases rule: fight_round_Leave_cases) (auto intro!: wears_down_then)

lemma wears_down_fight_loop:
  assumes "fight_loop env e g = Inr g'"
  shows "wears_down g g'"
proof -
  have "\<forall>g'. fight_loop env e g = Inr g' \<longrightarrow> wears_down g g'"
  proof (rule fight_loop_rule
      [where I = "wears_down g" and Q = "\<lambda>r. \<forall>g'. r = Inr g' \<longrightarrow> wears_down g g'"])
    show "wears_down g g" by simp
  next
    fix s s' :: game
    assume "wears_down g s" and "fight_round env e s = Again s'"
    then show "wears_down g s'"
      by (blast intro: wears_down_trans wears_down_round)
  next
    fix s :: game and r :: "error + game"
    assume "wears_down g s" and "fight_round env e s = Leave r"
    then show "\<forall>g'. r = Inr g' \<longrightarrow> wears_down g g'"
      by (blast intro: wears_down_trans wears_down_leave)
  next
    fix s :: game
    assume "wears_down g s"
    then show "\<forall>g'. Inr s = Inr g' \<longrightarrow> wears_down g g'"
      by simp
  qed
  with assms show ?thesis by blast
qed

lemma wears_down_cmd_fight:
  assumes "cmd_fight env a g = Inr g'"
  shows "wears_down g g'"
  using assms
proof (cases rule: cmd_fight_cases)
  case nobody
  then show ?thesis by simp
next
  case (engage e)
  from wears_down_fight_loop [OF engage(2)] show ?thesis
    by (rule wears_down_trans [OF wears_down_print])
qed

lemma wears_down_handle_command:
  assumes "handle_command env cmd_line g = Inr g'"
  shows "wears_down g g'"
  using assms
  by (cases rule: handle_command_cases) (simp_all add: wears_down_cmd_fight)

lemma cmd_fight_nobody:
  assumes "\<forall>e\<in>set (room_enemies (current_room g)).
             enemy_name (enemy_heap g e) = lower a \<longrightarrow> enemy_hp (enemy_heap g e) \<le> 0"
  shows "cmd_fight env a g = Inr (print ''No such enemy here.'' g)"
proof -
  have "first_index (\<lambda>e. enemy_name (enemy_heap g e) = lower a \<and> is_alive (enemy_heap g e))
          (room_enemies (current_room g)) = None"
    using assms by (auto simp: first_index_None_iff is_alive_def)
  then have "find_enemy_in_room a g = None"
    by (simp add: find_enemy_in_room_def)
  then show ?thesis
    by (subst cmd_fight.simps) simp
qed

lemma get_description_lines:
  "get_description eh r =
     join ''\<newline>''
       ([''You are in '' @ room_name r @ ''.'', room_description r]
        @ (if room_items r = [] then []
           else [''You see the following items: '' @ join '', '' (map item_name (room_items r))])
        @ (if filter (\<lambda>e. 0 < enemy_hp (eh e)) (room_enemies r) = [] then []
           else [''Enemies here: ''
                 @ join '', '' (map (\<lambda>e. enemy_name (eh e))
                                  (filter (\<lambda>e. 0 < enemy_hp (eh e)) (room_enemies r)))])
        @ (if room_exits r = [] then [] else [''Exits: '' @ join '', '' (map fst (room_exits r))]))"
  by (simp add: get_description_def Let_def is_alive_def)

text \<open>
  C5. No command that returns raises the health of any enemy (so an enemy at 0 or below
  stays there) or changes the enemy list of any room; the enemy that \<^verbatim>\<open>fight\<close> selects
  has positive health, is in the current room and bears the lower-cased name; the
  description of a room names exactly the enemies of its list with positive health, in
  the order of the list, and has no enemy line when there is none; and \<^verbatim>\<open>fight <name>\<close>
  with no enemy of that name and positive health in the current room prints the failure
  message and changes nothing else.
\<close>

theorem dead_enemies_stay_out:
  fixes env :: script and g :: game and cmd_line nm :: string and r :: room
  shows "(\<forall>g'. handle_command env cmd_line g = Inr g' \<longrightarrow>
            (\<forall>e. enemy_hp (enemy_heap g' e) \<le> enemy_hp (enemy_heap g e))
          \<and> (\<forall>x. room_enemies (room_heap g' x) = room_enemies (room_heap g x)))
       \<and> (\<forall>e. find_enemy_in_room nm g = Some e \<longrightarrow>
            0 < enemy_hp (enemy_heap g e) \<and> e \<in> set (room_enemies (current_room g))
            \<and> enemy_name (enemy_heap g e) = lower nm)
       \<and> ((\<forall>e\<in>set (room_enemies (current_room g)).
              enemy_name (enemy_heap g e) = lower nm \<longrightarrow> enemy_hp (enemy_heap g e) \<le> 0) \<longrightarrow>
            cmd_fight env nm g = Inr (g\<lparr>printed := printed g @ [''No such enemy here.'']\<rparr>))
       \<and> get_description (enemy_heap g) r =
           join ''\<newline>''
             ([''You are in '' @ room_name r @ ''.'', room_description r]
              @ (if room_items r = [] then []
                 else [''You see the following items: ''
                       @ join '', '' (map item_name (room_items r))])
              @ (if filter (\<lambda>e. 0 < enemy_hp (enemy_heap g e)) (room_enemies r) = [] then []
                 else [''Enemies here: ''
                       @ join '', '' (map (\<lambda>e. enemy_name (enemy_heap g e))
                            (filter (\<lambda>e. 0 < enemy_hp (enemy_heap g e)) (room_enemies r)))])
              @ (if room_exits r = [] then []
                 else [''Exits: '' @ join '', '' (map fst (room_exits r))]))"
proof (intro conjI allI impI)
  fix g' e
  assume "handle_command env cmd_line g = Inr g'"
  then have w: "wears_down g g'"
    by (rule wears_down_handle_command)
  then show "enemy_hp (enemy_heap g' e) \<le> enemy_hp (enemy_heap g e)"
    by (simp add: wears_down_def)
  fix x
  from w show "room_enemies (room_heap g' x) = room_enemies (room_heap g x)"
    by (simp add: wears_down_def)
next
  fix e
  assume f: "find_enemy_in_room nm g = Some e"
  from find_enemy_in_room_Some [OF f]
  show "0 < enemy_hp (enemy_heap g e)" "e \<in> set (room_enemies (current_room g))"
    "enemy_name (enemy_heap g e) = lower nm"
    by (simp_all add: is_alive_def)
next
  assume "\<forall>e\<in>set (room_enemies (current_room g)).
              enemy_name (enemy_heap g e) = lower nm \<longrightarrow> enemy_hp (enemy_heap g e) \<le> 0"
  then show "cmd_fight env nm g = Inr (g\<lparr>printed := printed g @ [''No such enemy here.'']\<rparr>)"
    by (simp add: cmd_fight_nobody print_def)
next
  show "get_description (enemy_heap g) r =
           join ''\<newline>''
             ([''You are in '' @ room_name r @ ''.'', room_description r]
              @ (if room_items r = [] then []
                 else [''You see the following items: ''
                       @ join '', '' (map item_name (room_items r))])
              @ (if filter (\<lambda>e. 0 < enemy_hp (enemy_heap g e)) (room_enemies r) = [] then []
                 else [''Enemies here: ''
                       @ join '', '' (map (\<lambda>e. enemy_name (enemy_heap g e))
                            (filter (\<lambda>e. 0 < enemy_hp (enemy_heap g e)) (room_enemies r)))])
              @ (if room_exits r = [] then []
                 else [''Exits: '' @ join '', '' (map fst (room_exits r))]))"
    by (rule get_description_lines)
qed

theorem dead_enemies_stay_out_witness:
  "cmd_fight (\<lambda>_. \<lparr>player_roll = 0, drop_roll = 0, enemy_roll = 0, typed = None\<rparr>) ''Goblin''
      (update_enemy (Suc 0) (take_damage 14)
         (update_player (\<lambda>p. p\<lparr>player_current_room := Suc 0\<rparr>) Game))
     = Inr (print ''No such enemy here.''
         (update_enemy (Suc 0) (take_damage 14)
            (update_player (\<lambda>p. p\<lparr>player_current_room := Suc 0\<rparr>) Game)))
   \<and> room_enemies (room_heap
         (update_enemy (Suc 0) (take_damage 14)
            (update_player (\<lambda>p. p\<lparr>player_current_room := Suc 0\<rparr>) Game)) (Suc 0)) = [Suc 0]
   \<and> get_description
        (enemy_heap (update_enemy (Suc 0) (take_damage 14)
            (update_player (\<lambda>p. p\<lparr>player_current_room := Suc 0\<rparr>) Game)))
        (room_heap Game (Suc 0))
      = ''You are in Great Hall.\<newline>A wide hall with a long table. Shadows flicker.\<newline>Exits: south, east, west, up''
   \<and> get_description (enemy_heap Game) (room_heap Game (Suc 0))
      = ''You are in Great Hall.\<newline>A wide hall with a long table. Shadows flicker.\<newline>Enemies here: goblin\<newline>Exits: south, east, west, up''"
proof -
  let ?env = "\<lambda>_ :: nat. \<lparr>player_roll = 0, drop_roll = 0, enemy_roll = 0, typed = None\<rparr>"
  let ?g = "update_enemy (Suc 0) (take_damage 14)
         (update_player (\<lambda>p. p\<lparr>player_current_room := Suc 0\<rparr>) Game)"
  have e: "enemy_heap ?g (Suc 0) = \<lparr>enemy_name = ''goblin'', enemy_hp = 0, enemy_attack = 4,
      enemy_description = ''Sneaky and mean.''\<rparr>"
    by (simp add: Game_goblin take_damage_def)
  have c: "current_room ?g = room_heap Game (Suc 0)"
    by (simp add: current_room_def Game_player)
  from dead_enemies_stay_out [of ?env "''fight Goblin''" ?g "''Goblin''" "room_heap Game (Suc 0)"]
       dead_enemies_stay_out [of ?env "''look''" Game "''Goblin''" "room_heap Game (Suc 0)"]
  show ?thesis
    by (simp add: e c Game_hall Game_goblin print_def take_damage_def lower_def lower_char_def upper_letters_def lower_letters_def)
qed

section \<open>The main loop and its reachable states\<close>

text \<open>
  \<^verbatim>\<open>Game.start\<close>: the statements before its loop, and its loop as the states at the top
  of the loop. A turn of the loop needs a living player; it prints the prompt, reads a
  line and strips it; a blank line starts the next turn, \<^verbatim>\<open>quit\<close> and \<^verbatim>\<open>exit\<close> end the
  loop, and any other line goes to the dispatcher in lower case. The script of the rounds
  of a fight is free at every turn.
\<close>

definition welcome_text :: string where
  "welcome_text = ''Welcome to the Text Adventure! Type 'help' for a list of commands.\<newline>''"

definition start_intro :: "game \<Rightarrow> game" where
  "start_intro g =
     (let g = (if \<not> intro_shown g then (print welcome_text g)\<lparr>intro_shown := True\<rparr> else g)
      in print (describe_current_room g) g)"

inductive reachable :: "game \<Rightarrow> bool" where
  started: "reachable (start_intro Game)"
| empty_line:
    "reachable g \<Longrightarrow> player_is_alive (player g) \<Longrightarrow> strip line = []
       \<Longrightarrow> reachable (print ''\<newline>> '' g)"
| command:
    "reachable g \<Longrightarrow> player_is_alive (player g) \<Longrightarrow> strip line \<noteq> []
       \<Longrightarrow> lower (strip line) \<notin> {''quit'', ''exit''}
       \<Longrightarrow> handle_command env (lower (strip line)) (print ''\<newline>> '' g) = Inr g'
       \<Longrightarrow> reachable g'"

lemma Game_armory:
  "room_heap Game 2 =
     \<lparr>room_name = ''Armory'', room_description = ''Racks of old weapons; one looks usable.'',
      room_items = [\<lparr>item_name = ''rusty sword'',
                     item_description = ''An old rusty sword. Adds to attack.'',
                     item_heal = 0, item_attack_bonus = 3\<rparr>],
      room_enemies = [], room_exits = [(''west'', 1)]\<rparr>"
  by (simp add: Game_nested world_defs)

lemma Game_kitchen:
  "room_heap Game 3 =
     \<lparr>room_name = ''Kitchen'', room_description = ''A greasy kitchen with broken pots.'',
      room_items = [\<lparr>item_name = ''large potion'',
                     item_description = ''A larger potion. Restores 20 HP.'',
                     item_heal = 20, item_attack_bonus = 0\<rparr>],
      room_enemies = [], room_exits = [(''east'', 1), (''down'', 4)]\<rparr>"
  by (simp add: Game_nested world_defs)

lemma Game_tower:
  "room_heap Game 5 =
     \<lparr>room_name = ''Tower Top'',
      room_description = ''A windy top of the tower with a view of the land.'',
      room_items = [\<lparr>item_name = ''glowing gem'',
                     item_description = ''A strange gem. Maybe valuable?'',
                     item_heal = 0, item_attack_bonus = 0\<rparr>],
      room_enemies = [2], room_exits = [(''down'', 1)]\<rparr>"
  by (simp add: Game_nested world_defs)

lemma Game_elsewhere:
  assumes "5 < r"
  shows "room_heap Game r = Room [] []"
  using assms by (simp add: Game_nested blank_def)

lemma Game_rooms_cases:
  obtains "r = 0" | "r = Suc 0" | "r = 2" | "r = 3" | "r = 4" | "r = 5" | "(5::nat) < r"
  by arith

lemma start_intro_sel [simp]:
  "room_heap (start_intro g) = room_heap g"
  "enemy_heap (start_intro g) = enemy_heap g"
  "player (start_intro g) = player g"
  "rooms (start_intro g) = rooms g"
  "round_no (start_intro g) = round_no g"
  by (simp_all add: start_intro_def Let_def print_def)


text \<open>
  \<open>tidy g\<close>: in every room the item names are pairwise different and in lower case, there
  is at most one enemy, and a small potion lies there only when the enemies of the room
  are dead.
\<close>

definition tidy :: "game \<Rightarrow> bool" where
  "tidy g \<longleftrightarrow>
     (\<forall>r. distinct (map item_name (room_items (room_heap g r)))
          \<and> (\<forall>it\<in>set (room_items (room_heap g r)). lower (item_name it) = item_name it)
          \<and> length (room_enemies (room_heap g r)) \<le> 1
          \<and> (''small potion'' \<in> item_name ` set (room_items (room_heap g r)) \<longrightarrow>
               (\<forall>e\<in>set (room_enemies (room_heap g r)). \<not> is_alive (enemy_heap g e))))"

lemma tidy_Game: "tidy Game"
  unfolding tidy_def
proof
  fix r
  show "distinct (map item_name (room_items (room_heap Game r)))
          \<and> (\<forall>it\<in>set (room_items (room_heap Game r)). lower (item_name it) = item_name it)
          \<and> length (room_enemies (room_heap Game r)) \<le> 1
          \<and> (''small potion'' \<in> item_name ` set (room_items (room_heap Game r)) \<longrightarrow>
               (\<forall>e\<in>set (room_enemies (room_heap Game r)). \<not> is_alive (enemy_heap Game e)))"
    by (cases r rule: Game_rooms_cases)
       (simp_all add: Game_foyer Game_hall Game_armory Game_kitchen Game_cellar Game_tower
          Game_elsewhere Room_def lower_examples lower_def lower_char_def upper_letters_def lower_letters_def)
qed

lemma tidy_same:
  assumes "tidy g" and "room_heap g' = room_heap g" and "enemy_heap g' = enemy_heap g"
  shows "tidy g'"
  using assms by (simp add: tidy_def)

lemma pop_outside:
  assumes "length xs \<le> i"
  shows "pop i xs = xs"
  using assms by (simp add: pop_def)

lemma distinct_pop:
  assumes "distinct (map f xs)"
  shows "distinct (map f (pop i xs))"
proof (cases "i < length xs")
  case True
  then have "xs = take i xs @ xs ! i # drop (Suc i) xs"
    by (rule id_take_nth_drop)
  then have "distinct (map f (take i xs @ xs ! i # drop (Suc i) xs))"
    using assms by simp
  then show ?thesis
    by (simp add: pop_def)
next
  case False
  with assms show ?thesis
    by (simp add: pop_outside)
qed

lemma set_pop: "set (pop i xs) \<subseteq> set xs"
  by (auto simp: pop_def dest: in_set_takeD in_set_dropD)

lemma pop_removes:
  assumes "distinct (map f xs)" and "i < length xs"
  shows "f (xs ! i) \<notin> f ` set (pop i xs)"
proof -
  from assms(2) have "xs = take i xs @ xs ! i # drop (Suc i) xs"
    by (rule id_take_nth_drop)
  then have "distinct (map f (take i xs @ xs ! i # drop (Suc i) xs))"
    using assms(1) by simp
  then show ?thesis
    by (auto simp: pop_def)
qed

lemma tidy_cmd_take:
  assumes "tidy g"
  shows "tidy (cmd_take a g)"
  unfolding tidy_def
proof
  fix r
  from assms have t: "distinct (map item_name (room_items (room_heap g r)))"
    "\<forall>it\<in>set (room_items (room_heap g r)). lower (item_name it) = item_name it"
    "length (room_enemies (room_heap g r)) \<le> 1"
    "''small potion'' \<in> item_name ` set (room_items (room_heap g r)) \<longrightarrow>
       (\<forall>e\<in>set (room_enemies (room_heap g r)). \<not> is_alive (enemy_heap g e))"
    by (simp_all add: tidy_def)
  show "distinct (map item_name (room_items (room_heap (cmd_take a g) r)))
          \<and> (\<forall>it\<in>set (room_items (room_heap (cmd_take a g) r)). lower (item_name it) = item_name it)
          \<and> length (room_enemies (room_heap (cmd_take a g) r)) \<le> 1
          \<and> (''small potion'' \<in> item_name ` set (room_items (room_heap (cmd_take a g) r)) \<longrightarrow>
               (\<forall>e\<in>set (room_enemies (room_heap (cmd_take a g) r)).
                  \<not> is_alive (enemy_heap (cmd_take a g) e)))"
    using t set_pop [of _ "room_items (room_heap g r)"]
    by (auto simp: distinct_pop split: option.splits)
qed

text \<open>
  A fight leaves the rooms as they are, but for the potion that a victory may drop in the
  room of the fight.
\<close>

lemma fight_loop_rooms:
  assumes "fight_loop env e g = Inr g'"
  shows "wears_down g g'
       \<and> (room_heap g' = room_heap g
          \<or> (\<not> is_alive (enemy_heap g' e)
              \<and> (\<forall>r. room_heap g' r =
                    (if r = player_current_room (player g)
                     then add_item (Item ''Small Potion'' ''A potion dropped by the enemy.'' 8 0)
                            (room_heap g r)
                     else room_heap g r))))"
proof -
  let ?loot = "Item ''Small Potion'' ''A potion dropped by the enemy.'' 8 0"
  let ?here = "player_current_room (player g)"
  let ?I = "\<lambda>s. room_heap s = room_heap g \<and> player_current_room (player s) = ?here"
  let ?Q = "\<lambda>r :: error + game. \<forall>g'. r = Inr g' \<longrightarrow>
       room_heap g' = room_heap g
       \<or> (\<not> is_alive (enemy_heap g' e)
           \<and> (\<forall>r. room_heap g' r =
                 (if r = ?here then add_item ?loot (room_heap g r) else room_heap g r)))"
  have "?Q (fight_loop env e g)"
  proof (rule fight_loop_rule [where I = ?I and Q = ?Q])
    show "?I g" by simp
  next
    fix s s' :: game
    assume "?I s" and "fight_round env e s = Again s'"
    then show "?I s'"
      using fight_round_Again(2,5) [of env e s s'] by simp
  next
    fix s :: game and r :: "error + game"
    assume i: "?I s" and l: "fight_round env e s = Leave r"
    from l show "?Q r"
    proof (cases rule: fight_round_Leave_cases)
      case eof
      then show ?thesis by simp
    next
      case won
      with i show ?thesis by auto
    next
      case slain
      with i show ?thesis by simp
    next
      case fled
      with i show ?thesis by simp
    qed
  next
    fix s :: game
    assume "?I s"
    then show "?Q (Inr s)" by simp
  qed
  with assms wears_down_fight_loop [OF assms] show ?thesis
    by blast
qed

lemma wears_down_dead:
  assumes "wears_down g g'" and "\<not> is_alive (enemy_heap g e)"
  shows "\<not> is_alive (enemy_heap g' e)"
proof -
  from assms(1) have "enemy_hp (enemy_heap g' e) \<le> enemy_hp (enemy_heap g e)"
    by (simp add: wears_down_def)
  with assms(2) show ?thesis
    by (simp add: is_alive_def)
qed

lemma tidy_worn:
  assumes "tidy g" and "wears_down g g'" and "room_heap g' = room_heap g"
  shows "tidy g'"
  unfolding tidy_def
proof
  fix r
  have dead: "\<not> is_alive (enemy_heap g e) \<Longrightarrow> \<not> is_alive (enemy_heap g' e)" for e
    using assms(2) by (rule wears_down_dead)
  from assms(1) have "distinct (map item_name (room_items (room_heap g r)))
          \<and> (\<forall>it\<in>set (room_items (room_heap g r)). lower (item_name it) = item_name it)
          \<and> length (room_enemies (room_heap g r)) \<le> 1
          \<and> (''small potion'' \<in> item_name ` set (room_items (room_heap g r)) \<longrightarrow>
               (\<forall>e\<in>set (room_enemies (room_heap g r)). \<not> is_alive (enemy_heap g e)))"
    by (simp add: tidy_def)
  with dead show "distinct (map item_name (room_items (room_heap g' r)))
          \<and> (\<forall>it\<in>set (room_items (room_heap g' r)). lower (item_name it) = item_name it)
          \<and> length (room_enemies (room_heap g' r)) \<le> 1
          \<and> (''small potion'' \<in> item_name ` set (room_items (room_heap g' r)) \<longrightarrow>
               (\<forall>e\<in>set (room_enemies (room_heap g' r)). \<not> is_alive (enemy_heap g' e)))"
    unfolding assms(3) by blast
qed

lemma tidy_fight_loop:
  assumes t: "tidy g"
    and e: "e \<in> set (room_enemies (current_room g))" "is_alive (enemy_heap g e)"
    and f: "fight_loop env e g = Inr g'"
  shows "tidy g'"
proof -
  let ?loot = "Item ''Small Potion'' ''A potion dropped by the enemy.'' 8 0"
  let ?here = "player_current_room (player g)"
  from fight_loop_rooms [OF f] have w: "wears_down g g'"
    and c: "room_heap g' = room_heap g
       \<or> (\<not> is_alive (enemy_heap g' e)
           \<and> (\<forall>r. room_heap g' r =
                 (if r = ?here then add_item ?loot (room_heap g r) else room_heap g r)))"
    by simp_all
  from c show ?thesis
  proof
    assume "room_heap g' = room_heap g"
    with t w show ?thesis by (rule tidy_worn)
  next
    assume a: "\<not> is_alive (enemy_heap g' e)
           \<and> (\<forall>r. room_heap g' r =
                 (if r = ?here then add_item ?loot (room_heap g r) else room_heap g r))"
    have dead: "\<not> is_alive (enemy_heap g x) \<Longrightarrow> \<not> is_alive (enemy_heap g' x)" for x
      using w by (rule wears_down_dead)
    have name: "item_name ?loot = ''small potion''" "lower ''small potion'' = ''small potion''"
      by (simp_all add: Item_def lower_examples)
    from t have here: "distinct (map item_name (room_items (room_heap g ?here)))"
      "\<forall>it\<in>set (room_items (room_heap g ?here)). lower (item_name it) = item_name it"
      "length (room_enemies (room_heap g ?here)) \<le> 1"
      "''small potion'' \<in> item_name ` set (room_items (room_heap g ?here)) \<longrightarrow>
         (\<forall>x\<in>set (room_enemies (room_heap g ?here)). \<not> is_alive (enemy_heap g x))"
      by (simp_all add: tidy_def)
    from e here(4) have fresh: "''small potion'' \<notin> item_name ` set (room_items (room_heap g ?here))"
      by (auto simp: current_room_def)
    from e(1) here(3) have only: "set (room_enemies (room_heap g ?here)) = {e}"
      by (cases "room_enemies (room_heap g ?here)") (auto simp: current_room_def)
    show ?thesis
      unfolding tidy_def
    proof
      fix r
      from t have r: "distinct (map item_name (room_items (room_heap g r)))"
        "\<forall>it\<in>set (room_items (room_heap g r)). lower (item_name it) = item_name it"
        "length (room_enemies (room_heap g r)) \<le> 1"
        "''small potion'' \<in> item_name ` set (room_items (room_heap g r)) \<longrightarrow>
           (\<forall>x\<in>set (room_enemies (room_heap g r)). \<not> is_alive (enemy_heap g x))"
        by (simp_all add: tidy_def)
      show "distinct (map item_name (room_items (room_heap g' r)))
          \<and> (\<forall>it\<in>set (room_items (room_heap g' r)). lower (item_name it) = item_name it)
          \<and> length (room_enemies (room_heap g' r)) \<le> 1
          \<and> (''small potion'' \<in> item_name ` set (room_items (room_heap g' r)) \<longrightarrow>
               (\<forall>x\<in>set (room_enemies (room_heap g' r)). \<not> is_alive (enemy_heap g' x)))"
      proof (cases "r = ?here")
        case True
        with a have "room_heap g' r = add_item ?loot (room_heap g ?here)"
          by simp
        with True here fresh only a name show ?thesis
          by (simp add: add_item_def)
      next
        case False
        with a have "room_heap g' r = room_heap g r"
          by simp
        with r dead show ?thesis
          by auto
      qed
    qed
  qed
qed

lemma tidy_cmd_fight:
  assumes "tidy g" and "cmd_fight env a g = Inr g'"
  shows "tidy g'"
  using assms(2)
proof (cases rule: cmd_fight_cases)
  case nobody
  with assms(1) show ?thesis
    by (simp add: tidy_same)
next
  case (engage e)
  let ?g = "print (''You engage the '' @ enemy_name (enemy_heap g e) @ ''!'') g"
  have "tidy ?g"
    using assms(1) by (simp add: tidy_same)
  moreover from find_enemy_in_room_Some [OF engage(1)]
  have "e \<in> set (room_enemies (current_room ?g))" "is_alive (enemy_heap ?g e)"
    by (simp_all add: current_room_def)
  ultimately show ?thesis
    using engage(2) by (rule tidy_fight_loop)
qed

lemma tidy_handle_command:
  assumes "tidy g" and "handle_command env cmd_line g = Inr g'"
  shows "tidy g'"
  using assms(2)
proof (cases rule: handle_command_cases)
  case (take a)
  with assms(1) show ?thesis by (simp add: tidy_cmd_take)
next
  case (fight a)
  with assms(1) show ?thesis by (rule tidy_cmd_fight)
qed (use assms(1) in \<open>simp_all add: tidy_same\<close>)

lemma reachable_tidy:
  assumes "reachable g"
  shows "tidy g"
  using assms
proof (induction rule: reachable.induct)
  case started
  from tidy_Game show ?case
    by (rule tidy_same) simp_all
next
  case (empty_line g line)
  then show ?case
    by (simp add: tidy_same)
next
  case (command g line env g')
  from command.IH have "tidy (print ''\<newline>> '' g)"
    by (simp add: tidy_same)
  then show ?case
    using command.hyps(5) by (rule tidy_handle_command)
qed

text \<open>
  The registered rooms never change, so the key \<^verbatim>\<open>foyer\<close> names the first room, the
  Foyer, in every reachable state.
\<close>

lemma reachable_foyer:
  assumes "reachable g"
  shows "rooms g ''foyer'' = Some 0"
  using assms
proof (induction rule: reachable.induct)
  case started
  show ?case
    by (simp add: Game_misc)
next
  case (empty_line g line)
  then show ?case
    by simp
next
  case (command g line env g')
  from wears_down_handle_command [OF command.hyps(5)]
  have "rooms g' = rooms g"
    by (simp add: wears_down_def)
  with command.IH show ?case
    by simp
qed

section \<open>Names of items\<close>

lemma line_examples:
  "lower (strip ''take small potion'') = ''take small potion''"
  "lower (strip ''go north'') = ''go north''"
  "lower (strip ''fight goblin'') = ''fight goblin''"
  "split ''take small potion'' = [''take'', ''small'', ''potion'']"
  "split ''go north'' = [''go'', ''north'']"
  "split ''fight goblin'' = [''fight'', ''goblin'']"
  "strip ''take small potion'' \<noteq> []" "strip ''go north'' \<noteq> []" "strip ''fight goblin'' \<noteq> []"
  by (simp_all add: strip_def is_space_def lower_def lower_char_def upper_letters_def lower_letters_def split_def)

text \<open>
  A run of the game: take the potion of the foyer, go north, kill the goblin in two
  rounds with the highest roll, the goblin dropping a potion, and take that potion too.
\<close>

lemma two_potions_run:
  "\<exists>g3 g4. reachable g3
      \<and> map item_name (room_items (room_heap g3 (Suc 0))) = [''small potion'']
      \<and> reachable g4
      \<and> map item_name (player_inventory (player g4)) = [''small potion'', ''small potion'']"
proof -
  define d where "d = \<lparr>player_roll = 3, drop_roll = 0, enemy_roll = 0, typed = Some ''c''\<rparr>"
  define env :: script where "env = (\<lambda>_. d)"
  define potion where "potion = \<lparr>item_name = ''small potion'',
    item_description = ''A red potion. Restores 10 HP.'', item_heal = 10, item_attack_bonus = 0\<rparr>"
  define goblin where "goblin = \<lparr>enemy_name = ''goblin'', enemy_hp = 14, enemy_attack = 4,
    enemy_description = ''Sneaky and mean.''\<rparr>"
  define s0 where "s0 = start_intro Game"
  define s1 where "s1 = cmd_take ''small potion'' (print ''\<newline>> '' s0)"
  define s2 where "s2 = cmd_go ''north'' (print ''\<newline>> '' s1)"
  define a where "a = print (''You engage the '' @ enemy_name (enemy_heap (print ''\<newline>> '' s2) (Suc 0)) @ ''!'')
                        (print ''\<newline>> '' s2)"
  define b where "b = print prompt (enemy_strike d (Suc 0) (player_strike d (Suc 0) a))"
  define s3 where "s3 = victory d (Suc 0) (player_strike d (Suc 0) b)"
  define s4 where "s4 = cmd_take ''small potion'' (print ''\<newline>> '' s3)"
  have d: "player_roll d = 3" "drop_roll d = 0" "enemy_roll d = 0" "typed d = Some ''c''"
    by (simp_all add: d_def)
  \<comment> \<open>the start\<close>
  have r0: "reachable s0"
    unfolding s0_def by (rule reachable.started)
  have p0: "player s0 = \<lparr>player_name = ''Adventurer'', player_current_room = 0, player_hp = 30,
      player_base_attack = 5, player_inventory = []\<rparr>"
    and h0: "room_heap s0 = room_heap Game" and e0: "enemy_heap s0 = enemy_heap Game"
    and n0: "round_no s0 = 0"
    by (simp_all add: s0_def Game_player Game_misc)
  \<comment> \<open>take small potion\<close>
  have f1: "first_index (\<lambda>it. item_name it = ''small potion'') (room_items (room_heap Game 0)) = Some 0"
    by (simp add: Game_foyer)
  have c1: "handle_command env (lower (strip ''take small potion'')) (print ''\<newline>> '' s0) = Inr s1"
    by (simp add: line_examples handle_command_parts [OF line_examples(4)] s1_def)
  have r1: "reachable s1"
    using r0 _ line_examples(7) _ c1
    by (rule reachable.command) (simp_all add: p0 player_is_alive_def line_examples)
  have p1: "player s1 = \<lparr>player_name = ''Adventurer'', player_current_room = 0, player_hp = 30,
      player_base_attack = 5, player_inventory = [potion]\<rparr>"
    by (simp add: s1_def p0 h0 current_room_def lower_examples f1 Game_foyer player_add_item_def
          potion_def)
  have h1: "room_heap s1 (Suc 0) = room_heap Game (Suc 0)"
    by (simp add: s1_def p0 h0 current_room_def lower_examples f1 split: option.splits)
  have e1: "enemy_heap s1 = enemy_heap Game" and n1: "round_no s1 = 0"
    by (simp_all add: s1_def e0 n0)
  have h1': "room_heap s1 0 = (room_heap Game 0)\<lparr>room_items := []\<rparr>"
    by (simp add: s1_def p0 h0 current_room_def lower_examples f1 Game_foyer pop_def)
  \<comment> \<open>go north\<close>
  have c2: "handle_command env (lower (strip ''go north'')) (print ''\<newline>> '' s1) = Inr s2"
    by (simp add: line_examples handle_command_parts [OF line_examples(5)] s2_def)
  have r2: "reachable s2"
    using r1 _ line_examples(8) _ c2
    by (rule reachable.command) (simp_all add: p1 player_is_alive_def line_examples)
  have p2: "player s2 = \<lparr>player_name = ''Adventurer'', player_current_room = Suc 0,
      player_hp = 30, player_base_attack = 5, player_inventory = [potion]\<rparr>"
    by (simp add: s2_def p1 h1' current_room_def Game_foyer)
  have h2: "room_heap s2 = room_heap s1" and e2: "enemy_heap s2 = enemy_heap Game"
    and n2: "round_no s2 = 0"
    by (simp_all add: s2_def e1 n1)
  \<comment> \<open>fight goblin: the first round\<close>
  have pa: "player a = player s2" and ha: "room_heap a = room_heap s1"
    and ea: "enemy_heap a = enemy_heap Game" and na: "round_no a = 0"
    by (simp_all add: a_def h2 e2 n2)
  have find: "find_enemy_in_room ''goblin'' (print ''\<newline>> '' s2) = Some (Suc 0)"
    by (simp add: find_enemy_in_room_def current_room_def p2 h2 h1 e2 Game_hall Game_goblin
          lower_examples is_alive_def)
  have atk: "attack_value (player s2) = 5"
    by (simp add: attack_value_def p2 potion_def)
  have c: "\<not> startswith ''c'' ''use ''"
    by (simp add: startswith_def)
  have hp2: "player_hp (player s2) = 30"
    by (simp add: p2)
  have round_a: "fight_round env (Suc 0) a = Again b"
    by (simp add: fight_round_def Let_def env_def d pa ea na atk Game_goblin take_damage_def
          is_alive_def player_is_alive_def hp2 strip_examples c b_def)
  have alive_a: "is_alive (enemy_heap a (Suc 0)) \<and> player_is_alive (player a)"
    by (simp add: pa ea p2 Game_goblin is_alive_def player_is_alive_def)
  \<comment> \<open>the second round\<close>
  have eb: "enemy_heap b (Suc 0) = goblin\<lparr>enemy_hp := 6\<rparr>"
    by (simp add: b_def pa ea atk d Game_goblin take_damage_def goblin_def)
  have pb: "player b = (player s2)\<lparr>player_hp := 26\<rparr>"
    by (simp add: b_def pa ea atk d Game_goblin take_damage_def p2)
  have hb: "room_heap b = room_heap s1" and nb: "round_no b = Suc 0"
    by (simp_all add: b_def ha na)
  have atk_b: "attack_value ((player s2)\<lparr>player_hp := 26\<rparr>) = 5"
    by (simp add: attack_value_def p2 potion_def)
  have round_b: "fight_round env (Suc 0) b = Leave (Inr s3)"
    by (simp add: fight_round_def Let_def env_def d eb pb atk_b goblin_def take_damage_def
          is_alive_def s3_def)
  have alive_b: "is_alive (enemy_heap b (Suc 0)) \<and> player_is_alive (player b)"
    by (simp add: eb pb p2 goblin_def is_alive_def player_is_alive_def)
  have "fight_loop env (Suc 0) a = fight_loop env (Suc 0) b"
    by (subst fight_loop_round) (simp only: alive_a if_True round_a step.case simp_thms)
  also have "\<dots> = Inr s3"
    by (subst fight_loop_round) (simp only: alive_b if_True round_b step.case simp_thms)
  finally have loop: "fight_loop env (Suc 0) a = Inr s3" .
  have "cmd_fight env ''goblin'' (print ''\<newline>> '' s2) = fight_loop env (Suc 0) a"
    by (subst cmd_fight.simps) (simp only: find option.case a_def)
  with loop have "cmd_fight env ''goblin'' (print ''\<newline>> '' s2) = Inr s3"
    by simp
  then have c3: "handle_command env (lower (strip ''fight goblin'')) (print ''\<newline>> '' s2) = Inr s3"
    by (simp add: line_examples handle_command_parts [OF line_examples(6)])
  have r3: "reachable s3"
    using r2 _ line_examples(9) _ c3
    by (rule reachable.command) (simp_all add: p2 player_is_alive_def line_examples)
  have p3: "player s3 = (player s2)\<lparr>player_hp := 26\<rparr>"
    by (simp add: s3_def pb)
  have h3: "room_items (room_heap s3 (Suc 0))
              = [Item ''Small Potion'' ''A potion dropped by the enemy.'' 8 0]"
    by (simp add: s3_def d pb p2 hb h1 Game_hall add_item_def)
  \<comment> \<open>take small potion, again\<close>
  have f4: "first_index (\<lambda>it. item_name it = ''small potion'')
              [Item ''Small Potion'' ''A potion dropped by the enemy.'' 8 0] = Some 0"
    by (simp add: Item_def lower_examples)
  have c4: "handle_command env (lower (strip ''take small potion'')) (print ''\<newline>> '' s3) = Inr s4"
    by (simp add: line_examples handle_command_parts [OF line_examples(4)] s4_def)
  have r4: "reachable s4"
    using r3 _ line_examples(7) _ c4
    by (rule reachable.command) (simp_all add: p3 p2 player_is_alive_def line_examples)
  have p4: "map item_name (player_inventory (player s4)) = [''small potion'', ''small potion'']"
    by (simp add: s4_def p3 p2 h3 current_room_def lower_examples f4 player_add_item_def
          potion_def Item_def)
  have q3: "map item_name (room_items (room_heap s3 (Suc 0))) = [''small potion'']"
    by (simp add: h3 Item_def lower_examples)
  show ?thesis
    by (rule exI [of _ s3], rule exI [of _ s4]) (simp only: r3 r4 p4 q3 simp_thms)
qed

text \<open>
  C6, as stated: in every reachable state item names are unique, case-insensitively,
  within the item list of each room and within the inventory. The run above refutes it:
  the inventory holds two items named \<^verbatim>\<open>small potion\<close>.
\<close>

theorem item_names_unique_counterexample:
  "\<not> (\<forall>g. reachable g \<longrightarrow>
         (\<forall>r. distinct (map (\<lambda>it. lower (item_name it)) (room_items (room_heap g r))))
         \<and> distinct (map (\<lambda>it. lower (item_name it)) (player_inventory (player g))))"
proof
  assume u: "\<forall>g. reachable g \<longrightarrow>
         (\<forall>r. distinct (map (\<lambda>it. lower (item_name it)) (room_items (room_heap g r))))
         \<and> distinct (map (\<lambda>it. lower (item_name it)) (player_inventory (player g)))"
  from two_potions_run obtain g4 where r: "reachable g4"
    and n: "map item_name (player_inventory (player g4)) = [''small potion'', ''small potion'']"
    by (elim exE conjE)
  from u r have "distinct (map lower (map item_name (player_inventory (player g4))))"
    by (simp add: comp_def)
  then show False
    unfolding n by simp
qed

text \<open>
  C6, amended: in every reachable state the item names are unique, case-insensitively,
  within the item list of each room. (Nothing keeps the names of the inventory apart.)
\<close>

theorem room_item_names_unique:
  assumes "reachable g"
  shows "distinct (map (\<lambda>it. lower (item_name it)) (room_items (room_heap g r)))"
proof -
  from assms have "tidy g"
    by (rule reachable_tidy)
  then have d: "distinct (map item_name (room_items (room_heap g r)))"
    and l: "\<forall>it\<in>set (room_items (room_heap g r)). lower (item_name it) = item_name it"
    by (simp_all add: tidy_def)
  have "map (\<lambda>it. lower (item_name it)) (room_items (room_heap g r))
                 = map item_name (room_items (room_heap g r))"
    by (rule map_cong [OF refl]) (simp add: l)
  then show ?thesis
    by (simp only: d)
qed

theorem room_item_names_unique_witness:
  "\<exists>g. reachable g
      \<and> map item_name (room_items (room_heap g (Suc 0))) = [''small potion'']
      \<and> distinct (map (\<lambda>it. lower (item_name it)) (room_items (room_heap g (Suc 0))))"
proof -
  from two_potions_run obtain g3 where r: "reachable g3"
    and n: "map item_name (room_items (room_heap g3 (Suc 0))) = [''small potion'']"
    by (elim exE conjE)
  from room_item_names_unique [OF r, of "Suc 0"]
  have d: "distinct (map (\<lambda>it. lower (item_name it)) (room_items (room_heap g3 (Suc 0))))" .
  show ?thesis
    by (rule exI [of _ g3]) (simp only: r n d simp_thms)
qed

section \<open>Taking an item\<close>

text \<open>
  C3. For every execution of \<^verbatim>\<open>take <name>\<close> in a reachable state, with \<open>its\<close> the item
  list of the current room: if the first item whose name is the lower-cased argument is
  the one at \<open>i\<close>, it is removed from the list of the room and appended to the inventory
  (one item less there, one more here, nothing else changing but the message), it is then
  in the inventory and not in the room, and taking the same name again finds nothing,
  prints the failure message and changes nothing else; if no item of the room has that
  name, the failure message is printed and nothing else changes.
\<close>

theorem cmd_take_moves_or_refuses:
  fixes g :: game and nm :: string and i :: nat
  assumes reach: "reachable g"
    and here: "here = player_current_room (player g)"
    and its: "its = room_items (room_heap g here)"
    and g': "g' = cmd_take nm g"
  shows "(i < length its \<and> item_name (its ! i) = lower nm
            \<and> (\<forall>j<i. item_name (its ! j) \<noteq> lower nm) \<longrightarrow>
          g' = g\<lparr>player := (player g)\<lparr>player_inventory := player_inventory (player g) @ [its ! i]\<rparr>,
                 room_heap := (room_heap g)
                   (here := (room_heap g here)\<lparr>room_items := take i its @ drop (Suc i) its\<rparr>),
                 printed := printed g @ [''You took the '' @ item_name (its ! i) @ ''.'']\<rparr>
          \<and> its ! i \<in> set (player_inventory (player g'))
          \<and> its ! i \<notin> set (room_items (room_heap g' here))
          \<and> length (room_items (room_heap g' here)) + 1 = length its
          \<and> length (player_inventory (player g')) = length (player_inventory (player g)) + 1
          \<and> cmd_take nm g' = g'\<lparr>printed := printed g' @ [''No such item here.'']\<rparr>)
       \<and> ((\<forall>it\<in>set its. item_name it \<noteq> lower nm) \<longrightarrow>
          g' = g\<lparr>printed := printed g @ [''No such item here.'']\<rparr>)"
proof (intro conjI impI)
  assume a: "i < length its \<and> item_name (its ! i) = lower nm
            \<and> (\<forall>j<i. item_name (its ! j) \<noteq> lower nm)"
  then have i: "i < length its" and n: "item_name (its ! i) = lower nm"
    by simp_all
  from a have f: "first_index (\<lambda>it. item_name it = lower nm)
                    (room_items (room_heap g (player_current_room (player g)))) = Some i"
    unfolding its here by (simp add: first_index_Some_iff)
  show eq: "g' = g\<lparr>player := (player g)\<lparr>player_inventory := player_inventory (player g) @ [its ! i]\<rparr>,
                 room_heap := (room_heap g)
                   (here := (room_heap g here)\<lparr>room_items := take i its @ drop (Suc i) its\<rparr>),
                 printed := printed g @ [''You took the '' @ item_name (its ! i) @ ''.'']\<rparr>"
    unfolding g' its here
    by (simp add: cmd_take_def Let_def f update_player_def update_room_def print_def
          player_add_item_def pop_def)
  from reach have "tidy g"
    by (rule reachable_tidy)
  then have d: "distinct (map item_name its)"
    by (simp add: tidy_def its)
  have left: "room_items (room_heap g' here) = pop i its"
    unfolding eq by (simp add: pop_def)
  from pop_removes [OF d i] have gone: "item_name (its ! i) \<notin> item_name ` set (pop i its)" .
  show "its ! i \<in> set (player_inventory (player g'))"
    unfolding eq by simp
  from gone show "its ! i \<notin> set (room_items (room_heap g' here))"
    unfolding left by blast
  from i show "length (room_items (room_heap g' here)) + 1 = length its"
    unfolding left by (simp add: pop_def)
  show "length (player_inventory (player g')) = length (player_inventory (player g)) + 1"
    unfolding eq by simp
  have "player_current_room (player g') = here"
    unfolding eq by (simp add: here)
  moreover have "\<forall>x\<in>set (pop i its). item_name x \<noteq> lower nm"
  proof
    fix x
    assume "x \<in> set (pop i its)"
    then have "item_name x \<in> item_name ` set (pop i its)"
      by (rule imageI)
    with gone show "item_name x \<noteq> lower nm"
      unfolding n by metis
  qed
  ultimately have "first_index (\<lambda>it. item_name it = lower nm)
           (room_items (room_heap g' (player_current_room (player g')))) = None"
    by (simp add: first_index_None_iff left)
  then show "cmd_take nm g' = g'\<lparr>printed := printed g' @ [''No such item here.'']\<rparr>"
    by (simp add: cmd_take_def Let_def print_def)
next
  assume "\<forall>it\<in>set its. item_name it \<noteq> lower nm"
  then have "first_index (\<lambda>it. item_name it = lower nm)
                    (room_items (room_heap g (player_current_room (player g)))) = None"
    unfolding its here by (simp add: first_index_None_iff)
  then show "g' = g\<lparr>printed := printed g @ [''No such item here.'']\<rparr>"
    unfolding g' by (simp add: cmd_take_def Let_def print_def)
qed

theorem cmd_take_moves_or_refuses_witness:
  "cmd_take ''Small Potion'' (cmd_take ''Small Potion'' (start_intro Game))
     = (cmd_take ''Small Potion'' (start_intro Game))
         \<lparr>printed := printed (cmd_take ''Small Potion'' (start_intro Game))
                      @ [''No such item here.'']\<rparr>
   \<and> length (player_inventory (player (cmd_take ''Small Potion'' (start_intro Game)))) = 1
   \<and> length (room_items (room_heap (cmd_take ''Small Potion'' (start_intro Game)) 0)) = 0
   \<and> cmd_take ''Rusty Sword'' (start_intro Game)
     = (start_intro Game)\<lparr>printed := printed (start_intro Game) @ [''No such item here.'']\<rparr>"
proof -
  have its: "room_items (room_heap Game 0) = room_items (room_heap (start_intro Game)
      (player_current_room (player (start_intro Game))))"
    by (simp add: Game_player)
  have a: "0 < length (room_items (room_heap Game 0))
      \<and> item_name (room_items (room_heap Game 0) ! 0) = lower ''Small Potion''
      \<and> (\<forall>j<0. item_name (room_items (room_heap Game 0) ! j) \<noteq> lower ''Small Potion'')"
    by (simp add: Game_foyer lower_examples)
  have b: "\<forall>it\<in>set (room_items (room_heap Game 0)). item_name it \<noteq> lower ''Rusty Sword''"
    by (simp add: Game_foyer lower_examples)
  note t = cmd_take_moves_or_refuses [OF reachable.started refl its refl]
  from t [of 0 "''Small Potion''", THEN conjunct1, THEN mp, OF a]
       t [of 0 "''Rusty Sword''", THEN conjunct2, THEN mp, OF b]
  show ?thesis
    by (elim conjE) (simp add: Game_foyer Game_player del: cmd_take_sel)
qed

end
